theory Spec2Isabelle
  imports Complex_Main
begin

chapter \<open>IsoCard: object registry and physics synchronisation\<close>

text \<open>
  A shallow embedding of \<^verbatim>\<open>src/isocard.ts\<close> (class \<^verbatim>\<open>IsoCard\<close>).
  JavaScript numbers are modelled as real numbers, an absent (\<^verbatim>\<open>undefined\<close>) property
  as \<open>None\<close>, and every JavaScript object that the class shares by reference (the
  THREE objects, the physics bodies) as a cell of an explicit store addressed by a
  natural number. The class receives the THREE library and the Jolt module from
  outside; what it uses of their arithmetic is kept as a record of functions, so
  that nothing is assumed about the numbers they compute.
\<close>

section \<open>Values\<close>

datatype vec3 = Vec3 (vx: real) (vy: real) (vz: real)

datatype quat = Quat (qx: real) (qy: real) (qz: real) (qw: real)

text \<open>
  \<^verbatim>\<open>v || d\<close> on an optional number: the default is taken when the property is
  absent and also when it is \<open>0\<close> (both are falsy).
\<close>

definition jsor :: "real option \<Rightarrow> real \<Rightarrow> real" where
  "jsor v d = (case v of None \<Rightarrow> d | Some a \<Rightarrow> if a = 0 then d else a)"

text \<open>Truthiness of an optional string: absent and the empty string are falsy.\<close>

definition truthy :: "string option \<Rightarrow> bool" where
  "truthy v = (case v of None \<Rightarrow> False | Some s \<Rightarrow> s \<noteq> [])"

text \<open>
  \<^verbatim>\<open>a && b\<close> on optional booleans: the first operand when it is falsy (\<^verbatim>\<open>false\<close> or
  \<^verbatim>\<open>undefined\<close>), else the second.
\<close>

definition jsAnd :: "bool option \<Rightarrow> bool option \<Rightarrow> bool option" where
  "jsAnd a b = (if a = Some True then b else a)"

text \<open>
  THREE keeps the \<^verbatim>\<open>rotation\<close> and the \<^verbatim>\<open>quaternion\<close> of an object in step: a write to
  one of them recomputes the other, with \<^verbatim>\<open>Quaternion.setFromEuler\<close> and
  \<^verbatim>\<open>Euler.setFromQuaternion\<close>. These two conversions are what the model takes from
  the library \<^verbatim>\<open>deps.THREE\<close>.
\<close>

record three_lib =
  setFromEuler :: "vec3 \<Rightarrow> quat"
  setFromQuaternion :: "quat \<Rightarrow> vec3"

text \<open>
  The arithmetic of the Jolt module that the class calls: the constructors
  \<^verbatim>\<open>RVec3\<close> and \<^verbatim>\<open>Quat\<close>, which store numbers in the precision of the engine, the
  vector operations \<^verbatim>\<open>Sub\<close>, \<^verbatim>\<open>LengthSq\<close>, \<^verbatim>\<open>Normalized\<close> and \<^verbatim>\<open>Mul\<close>, and the sum by
  which a body accumulates the forces added to it.
\<close>

record jolt_ops =
  jRVec3 :: "vec3 \<Rightarrow> vec3"
  jQuat :: "quat \<Rightarrow> quat"
  jSub :: "vec3 \<Rightarrow> vec3 \<Rightarrow> vec3"
  jLengthSq :: "vec3 \<Rightarrow> real"
  jNormalized :: "vec3 \<Rightarrow> vec3"
  jMul :: "vec3 \<Rightarrow> real \<Rightarrow> vec3"
  jAdd :: "vec3 \<Rightarrow> vec3 \<Rightarrow> vec3"

section \<open>Descriptors\<close>

text \<open>
  The shape descriptor \<^verbatim>\<open>config.shape\<close>. Only its type and its dimension properties are
  kept; the segment counts and angles are copied untouched by every function below.
\<close>

record shape =
  stype :: "string option"
  width :: "real option"
  height :: "real option"
  depth :: "real option"
  radius :: "real option"
  radiusTop :: "real option"
  radiusBottom :: "real option"
  tube :: "real option"
  innerRadius :: "real option"
  outerRadius :: "real option"

record material_cfg =
  mtype :: "string option"
  mtransparent :: "bool option"
  mopacity :: "real option"

record physics_cfg =
  motionType :: "string option"
  mass :: "real option"
  friction :: "real option"
  restitution :: "real option"
  gravityStrength_p :: "real option"

record gravity_cfg =
  gtype :: "string option"
  gvector :: "vec3 option"
  gstrength :: "real option"

text \<open>
  \<^verbatim>\<open>rot\<close> is an array of four numbers (a quaternion) or of three (Euler angles in
  radians), as the scene format documents it.
\<close>

datatype rot_cfg = Rot4 real real real real | Rot3 real real real

record config =
  ctype :: "string option"
  name :: "string option"
  layer :: "string option"
  enabled :: "bool option"
  shape :: "shape option"
  material :: "material_cfg option"
  color :: "real option"
  pos :: "vec3 option"
  rot :: "rot_cfg option"
  euler :: "vec3 option"
  scale :: "vec3 option"
  lightType :: "string option"
  helperType :: "string option"
  physics :: "physics_cfg option"
  gravity :: "gravity_cfg option"

section \<open>Render objects\<close>

record geometry =
  geo_kind :: string
  geo_dims :: "real list"
  geo_disposed :: bool

record material_obj =
  mat_kind :: string
  transparent :: bool
  opacity :: real
  mat_disposed :: bool

text \<open>
  The kinds of THREE object that the class makes; \<open>BoxHelper r\<close> is the selection box
  around the object at address \<open>r\<close>.
\<close>

datatype obj_kind = Mesh | Group | Light | Helper | BoxHelper nat

text \<open>
  A THREE object: \<open>kind\<close> stands for the flags \<^verbatim>\<open>isMesh\<close> and \<^verbatim>\<open>isGroup\<close>, the
  \<open>ud_\<close> fields for the properties of \<^verbatim>\<open>userData\<close>. \<open>visible\<close> is \<open>None\<close> when the
  source has assigned \<^verbatim>\<open>undefined\<close> to it.
\<close>

record three_obj =
  kind :: obj_kind
  position :: vec3
  quaternion :: quat
  rotation :: vec3
  obj_scale :: vec3
  visible :: "bool option"
  obj_geometry :: "geometry option"
  obj_material :: "material_obj option"
  ud_layer :: "string option"
  ud_enabled :: "bool option"
  ud_body :: "nat option"
  ud_isDynamic :: "bool option"
  ud_isStatic :: "bool option"
  ud_isKinematic :: "bool option"
  ud_physicsConfig :: "physics_cfg option"

section \<open>Geometry construction and the shape scaler\<close>

definition mk_geometry :: "string \<Rightarrow> real list \<Rightarrow> geometry option" where
  "mk_geometry k ds = Some \<lparr>geo_kind = k, geo_dims = ds, geo_disposed = False\<rparr>"

definition createGeometry :: "shape \<Rightarrow> geometry option" where
  "createGeometry sh =
    (case stype sh of
       None \<Rightarrow> None
     | Some t \<Rightarrow>
        if t = ''box'' then
          mk_geometry t [jsor (width sh) 1, jsor (height sh) 1, jsor (depth sh) 1]
        else if t = ''sphere'' then mk_geometry t [jsor (radius sh) 1]
        else if t = ''plane'' then mk_geometry t [jsor (width sh) 1, jsor (height sh) 1]
        else if t = ''cylinder'' then
          mk_geometry t [jsor (radiusTop sh) 1, jsor (radiusBottom sh) 1, jsor (height sh) 1]
        else if t = ''cone'' then mk_geometry t [jsor (radius sh) 1, jsor (height sh) 1]
        else if t = ''torus'' then mk_geometry t [jsor (radius sh) 1, jsor (tube sh) 0.4]
        else if t = ''circle'' then mk_geometry t [jsor (radius sh) 1]
        else if t = ''ring'' then
          mk_geometry t [jsor (innerRadius sh) 0.5, jsor (outerRadius sh) 1]
        else if t = ''dodecahedron'' then mk_geometry t [jsor (radius sh) 1]
        else if t = ''icosahedron'' then mk_geometry t [jsor (radius sh) 1]
        else if t = ''octahedron'' then mk_geometry t [jsor (radius sh) 1]
        else if t = ''tetrahedron'' then mk_geometry t [jsor (radius sh) 1]
        else if t = ''torusknot'' then mk_geometry t [jsor (radius sh) 1, jsor (tube sh) 0.4]
        else if t = ''capsule'' then mk_geometry t [jsor (radius sh) 0.5, jsor (height sh) 1]
        else None)"

definition max3 :: "real \<Rightarrow> real \<Rightarrow> real \<Rightarrow> real" where
  "max3 a b c = max (max a b) c"

definition getScaledShapeDimensions :: "config \<Rightarrow> three_obj \<Rightarrow> shape option" where
  "getScaledShapeDimensions cfg mesh =
    (let s = obj_scale mesh in
     case shape cfg of
       None \<Rightarrow> None
     | Some sh \<Rightarrow>
        Some
         (if stype sh = Some ''box'' then
            sh\<lparr>width := Some (jsor (width sh) 1 * vx s),
               height := Some (jsor (height sh) 1 * vy s),
               depth := Some (jsor (depth sh) 1 * vz s)\<rparr>
          else if stype sh = Some ''sphere'' then
            sh\<lparr>radius := Some (jsor (radius sh) 1 * max3 (vx s) (vy s) (vz s))\<rparr>
          else if stype sh = Some ''plane'' then
            sh\<lparr>width := Some (jsor (width sh) 1 * vx s),
               height := Some (jsor (height sh) 1 * vz s)\<rparr>
          else if stype sh = Some ''cylinder'' then
            sh\<lparr>radiusTop := Some (jsor (radiusTop sh) 1 * max (vx s) (vz s)),
               radiusBottom := Some (jsor (radiusBottom sh) 1 * max (vx s) (vz s)),
               height := Some (jsor (height sh) 1 * vy s)\<rparr>
          else if stype sh = Some ''cone'' then
            sh\<lparr>radius := Some (jsor (radius sh) 1 * max (vx s) (vz s)),
               height := Some (jsor (height sh) 1 * vy s)\<rparr>
          else if stype sh = Some ''torus'' then
            sh\<lparr>radius := Some (jsor (radius sh) 1 * max (vx s) (vz s)),
               tube := Some (jsor (tube sh) 0.4 * max3 (vx s) (vy s) (vz s))\<rparr>
          else sh))"

text \<open>The shape types that the scaler recognises.\<close>

definition recognized :: "string list" where
  "recognized = [''box'', ''sphere'', ''plane'', ''cylinder'', ''cone'', ''torus'']"

section \<open>Material construction\<close>

definition toLowerCase :: "string \<Rightarrow> string" where
  "toLowerCase s =
    map (\<lambda>c. if 65 \<le> (of_char c :: nat) \<and> (of_char c :: nat) \<le> 90
             then char_of ((of_char c :: nat) + 32) else c) s"

definition materialTypes :: "string list" where
  "materialTypes =
    [''basic'', ''lambert'', ''phong'', ''standard'', ''physical'', ''toon'', ''normal'',
     ''depth'', ''linebasic'', ''linedashed'', ''points'', ''sprite'', ''shadow'']"

definition createMaterialFromObj :: "material_cfg \<Rightarrow> material_obj option" where
  "createMaterialFromObj m =
    (let lower = map_option toLowerCase (mtype m);
         t = (case lower of None \<Rightarrow> ''phong'' | Some x \<Rightarrow> if x = [] then ''phong'' else x)
     in if t \<in> set materialTypes then
          Some \<lparr>mat_kind = t,
                transparent = (case mtransparent m of None \<Rightarrow> False | Some b \<Rightarrow> b),
                opacity = (case mopacity m of None \<Rightarrow> 1 | Some v \<Rightarrow> v),
                mat_disposed = False\<rparr>
        else None)"

text \<open>The material descriptor \<^verbatim>\<open>{ type: "phong", color: .. }\<close> used when a config has none.\<close>

definition phongCfg :: material_cfg where
  "phongCfg = \<lparr>mtype = Some ''phong'', mtransparent = None, mopacity = None\<rparr>"

definition emptyShape :: shape where
  "emptyShape = \<lparr>stype = None, width = None, height = None, depth = None, radius = None,
     radiusTop = None, radiusBottom = None, tube = None, innerRadius = None,
     outerRadius = None\<rparr>"

section \<open>The state of an IsoCard instance\<close>

record layer_info =
  lvisible :: bool
  lopacity :: real

text \<open>An element of \<^verbatim>\<open>this.objects\<close>; \<open>threeObj\<close> is the address of the THREE object.\<close>

record entry =
  eid :: "string option"
  threeObj :: nat
  econfig :: config

record transform =
  t_position :: vec3
  t_quaternion :: quat
  t_scale :: vec3
  t_rotation :: vec3

datatype motion = EMotionType_Static | EMotionType_Kinematic | EMotionType_Dynamic

text \<open>
  Collision shapes of the engine. An argument is \<open>None\<close> where the source computes it
  from a property that the descriptor does not have.
\<close>

datatype jolt_shape =
    BoxShape "real option" "real option" "real option"
  | SphereShape "real option"
  | CylinderShape "real option" "real option"
  | CapsuleShape "real option" "real option"

text \<open>A body of the physics engine, with what the source passes to it and reads from it.\<close>

record body =
  b_shape :: jolt_shape
  b_position :: vec3
  b_rotation :: quat
  b_motion :: motion
  b_layer :: nat
  b_massOverride :: "real option"
  b_friction :: "real option"
  b_restitution :: "real option"
  b_linearVelocity :: vec3
  b_angularVelocity :: vec3
  b_force :: vec3
  b_name :: "string option"

text \<open>
  The fields of the class. \<open>THREE\<close> is the injected library, and \<open>jolt\<close> the module of
  the engine once it is loaded. \<open>layers\<close> holds the own properties of the object
  \<^verbatim>\<open>this.layers\<close>, and \<open>protoOpacity\<close> the \<^verbatim>\<open>opacity\<close> that the class has written to a
  value which \<^verbatim>\<open>this.layers\<close> inherits (see \<open>layerAt\<close> below). \<open>heap\<close> holds the THREE
  objects and \<open>scene\<close> the children of the THREE scene; \<open>bodies\<close> holds the bodies that
  the engine owns. \<open>jInterface\<close>, \<open>bodyInterface\<close> and \<open>physicsSystem\<close> say whether the
  reference is set. \<open>selectedHelper\<close> is the address of the selection box, and
  \<open>stepLog\<close> lists the calls of the engine's \<^verbatim>\<open>Step\<close>, the latest first.
\<close>

record isocard =
  THREE :: three_lib
  layers :: "string \<Rightarrow> layer_info option"
  protoOpacity :: "string \<Rightarrow> real option"
  objects :: "entry list"
  scene :: "nat list"
  heap :: "nat \<Rightarrow> three_obj option"
  nextRef :: nat
  selectedHelper :: "nat option"
  sceneGravity :: gravity_cfg
  jolt :: "jolt_ops option"
  jInterface :: bool
  bodyInterface :: bool
  physicsSystem :: bool
  bodies :: "nat \<Rightarrow> body option"
  nextBody :: nat
  nativeGravity :: vec3
  dynamicObjects :: "nat list"
  isPhysicsRunning :: bool
  simTime :: real
  lastActionTime :: real
  actionsPerSecond :: real
  savedTransforms :: "(string option \<times> transform) list"
  gravityType :: string
  gravityStrength :: real
  gravityCenter :: vec3
  attractors :: "(vec3 \<times> real) list"
  stepLog :: "(real \<times> nat) list"

definition LAYER_NON_MOVING :: nat where
  "LAYER_NON_MOVING = 0"

definition LAYER_MOVING :: nat where
  "LAYER_MOVING = 1"

text \<open>The state that the constructor builds around the library handed to it.\<close>

definition newIsoCard :: "three_lib \<Rightarrow> isocard" where
  "newIsoCard lib =
    \<lparr>THREE = lib,
     layers = [''main'' \<mapsto> \<lparr>lvisible = True, lopacity = 1\<rparr>], protoOpacity = Map.empty,
     objects = [], scene = [], heap = Map.empty, nextRef = 0, selectedHelper = None,
     sceneGravity = \<lparr>gtype = Some ''uniform'', gvector = Some (Vec3 0 (- 9.81) 0),
                     gstrength = None\<rparr>,
     jolt = None, jInterface = False, bodyInterface = False, physicsSystem = False,
     bodies = Map.empty, nextBody = 0, nativeGravity = Vec3 0 0 0,
     dynamicObjects = [], isPhysicsRunning = False, simTime = 0, lastActionTime = 0,
     actionsPerSecond = 1, savedTransforms = [], gravityType = ''uniform'',
     gravityStrength = 1000, gravityCenter = Vec3 0 0 0, attractors = [], stepLog = []\<rparr>"

text \<open>
  \<^verbatim>\<open>setupJOLT\<close>, once the loader has resolved to the module \<open>loaded\<close>: the world is
  built and the gravity vector of the scene is handed to it.
\<close>

definition setupJOLT :: "jolt_ops \<Rightarrow> isocard \<Rightarrow> isocard" where
  "setupJOLT loaded s =
    (if jolt s \<noteq> None \<and> jInterface s \<and> bodyInterface s then s
     else s\<lparr>jolt := Some loaded, simTime := 0, jInterface := True, physicsSystem := True,
            bodyInterface := True,
            nativeGravity := (case gvector (sceneGravity s) of
                                None \<Rightarrow> Vec3 0 (- 9.81) 0 | Some g \<Rightarrow> g)\<rparr>)"

section \<open>Looking up a layer\<close>

text \<open>
  \<^verbatim>\<open>this.layers\<close> is a plain object, and the source reads it with
  \<^verbatim>\<open>this.layers[name]\<close>. For a name that is no own property this finds the property
  that every plain object inherits from \<^verbatim>\<open>Object.prototype\<close>, when there is one.
\<close>

definition inheritedNames :: "string list" where
  "inheritedNames =
    [''constructor'', ''__defineGetter__'', ''__defineSetter__'', ''hasOwnProperty'',
     ''__lookupGetter__'', ''__lookupSetter__'', ''isPrototypeOf'', ''propertyIsEnumerable'',
     ''toString'', ''valueOf'', ''__proto__'', ''toLocaleString'']"

text \<open>
  What \<^verbatim>\<open>this.layers[name]\<close> gives: \<open>Absent\<close> for \<^verbatim>\<open>undefined\<close>, else the value
  found, of which the source reads the properties \<^verbatim>\<open>visible\<close> and \<^verbatim>\<open>opacity\<close>. A layer
  made by the class has both. An inherited value is a function or an object, hence
  truthy; it has no \<^verbatim>\<open>visible\<close>, and an \<^verbatim>\<open>opacity\<close> only once \<^verbatim>\<open>updateLayerOpacity\<close> has
  written one to it. (Such a write under the name \<^verbatim>\<open>__proto__\<close> lands on
  \<^verbatim>\<open>Object.prototype\<close> itself and shows in every object of the program; the model
  keeps it under that name only.)
\<close>

datatype slot = Absent | Found "bool option" "real option"

definition layerAt :: "isocard \<Rightarrow> string \<Rightarrow> slot" where
  "layerAt s l =
    (case layers s l of
       Some li \<Rightarrow> Found (Some (lvisible li)) (Some (lopacity li))
     | None \<Rightarrow> if l \<in> set inheritedNames then Found None (protoOpacity s l) else Absent)"

text \<open>\<^verbatim>\<open>if (!this.layers[l]) this.layers[l] = { visible: true, opacity: op }\<close>.\<close>

definition ensureLayer :: "string \<Rightarrow> real \<Rightarrow> isocard \<Rightarrow> isocard" where
  "ensureLayer l op s =
    (case layerAt s l of
       Absent \<Rightarrow> s\<lparr>layers := (layers s)(l \<mapsto> \<lparr>lvisible = True, lopacity = op\<rparr>)\<rparr>
     | Found _ _ \<Rightarrow> s)"

section \<open>Gravity configuration\<close>

definition mergeGravity :: "gravity_cfg \<Rightarrow> gravity_cfg \<Rightarrow> gravity_cfg" where
  "mergeGravity old new =
    \<lparr>gtype = (case gtype new of None \<Rightarrow> gtype old | Some v \<Rightarrow> Some v),
     gvector = (case gvector new of None \<Rightarrow> gvector old | Some v \<Rightarrow> Some v),
     gstrength = (case gstrength new of None \<Rightarrow> gstrength old | Some v \<Rightarrow> Some v)\<rparr>"

text \<open>
  \<^verbatim>\<open>setGravityConfig\<close>. With the physics system set, the gravity vector is built
  with a constructor of the module; without the module that throws, after the two
  assignments and before anything else is written.
\<close>

definition setGravityConfig :: "gravity_cfg \<Rightarrow> isocard \<Rightarrow> isocard" where
  "setGravityConfig cfg s =
    (let g = mergeGravity (sceneGravity s) cfg;
         ty = (case gtype g of None \<Rightarrow> ''uniform'' | Some t \<Rightarrow> if t = [] then ''uniform'' else t);
         s1 = s\<lparr>sceneGravity := g, gravityType := ty\<rparr>
     in if physicsSystem s1 \<and> jolt s1 \<noteq> None then
          (if ty = ''uniform'' then
             s1\<lparr>nativeGravity := (case gvector g of None \<Rightarrow> Vec3 0 (- 9.81) 0 | Some v \<Rightarrow> v)\<rparr>
           else if ty = ''radial'' then
             s1\<lparr>nativeGravity := Vec3 0 0 0, gravityStrength := jsor (gstrength g) 1000\<rparr>
           else s1)
        else s1)"

section \<open>Building render objects\<close>

text \<open>\<^verbatim>\<open>v || d\<close> on an optional string.\<close>

definition strOr :: "string option \<Rightarrow> string \<Rightarrow> string" where
  "strOr v d = (case v of None \<Rightarrow> d | Some x \<Rightarrow> if x = [] then d else x)"

text \<open>A THREE object as its constructor leaves it.\<close>

definition newObject :: "obj_kind \<Rightarrow> three_obj" where
  "newObject k =
    \<lparr>kind = k, position = Vec3 0 0 0, quaternion = Quat 0 0 0 1, rotation = Vec3 0 0 0,
     obj_scale = Vec3 1 1 1, visible = Some True, obj_geometry = None, obj_material = None,
     ud_layer = None, ud_enabled = None, ud_body = None, ud_isDynamic = None,
     ud_isStatic = None, ud_isKinematic = None, ud_physicsConfig = None\<rparr>"

definition applyPos :: "vec3 option \<Rightarrow> three_obj \<Rightarrow> three_obj" where
  "applyPos p ob = (case p of None \<Rightarrow> ob | Some v \<Rightarrow> ob\<lparr>position := v\<rparr>)"

definition applyScale :: "vec3 option \<Rightarrow> three_obj \<Rightarrow> three_obj" where
  "applyScale p ob = (case p of None \<Rightarrow> ob | Some v \<Rightarrow> ob\<lparr>obj_scale := v\<rparr>)"

definition eulerRad :: "vec3 \<Rightarrow> vec3" where
  "eulerRad e = Vec3 (vx e * pi / 180) (vy e * pi / 180) (vz e * pi / 180)"

text \<open>
  A write to \<^verbatim>\<open>rotation\<close> (\<^verbatim>\<open>set\<close>, \<^verbatim>\<open>copy\<close>) and a write to \<^verbatim>\<open>quaternion\<close>
  (\<^verbatim>\<open>fromArray\<close>, \<^verbatim>\<open>copy\<close>), each with the update of the other property.
\<close>

definition setRotation :: "three_lib \<Rightarrow> vec3 \<Rightarrow> three_obj \<Rightarrow> three_obj" where
  "setRotation lib e ob = ob\<lparr>rotation := e, quaternion := setFromEuler lib e\<rparr>"

definition setQuaternion :: "three_lib \<Rightarrow> quat \<Rightarrow> three_obj \<Rightarrow> three_obj" where
  "setQuaternion lib q ob = ob\<lparr>quaternion := q, rotation := setFromQuaternion lib q\<rparr>"

text \<open>The rotation precedence: \<^verbatim>\<open>euler\<close> in degrees, else \<^verbatim>\<open>rot\<close> by its length.\<close>

definition applyRotation ::
  "three_lib \<Rightarrow> vec3 option \<Rightarrow> rot_cfg option \<Rightarrow> three_obj \<Rightarrow> three_obj" where
  "applyRotation lib e r ob =
    (case e of
       Some d \<Rightarrow> setRotation lib (eulerRad d) ob
     | None \<Rightarrow>
        (case r of
           None \<Rightarrow> ob
         | Some (Rot4 a b c d) \<Rightarrow> setQuaternion lib (Quat a b c d) ob
         | Some (Rot3 a b c) \<Rightarrow> setRotation lib (Vec3 a b c) ob))"

definition lightTypes :: "string list" where
  "lightTypes = [''directional'', ''ambient'', ''point'', ''spot'', ''hemisphere'']"

definition helperTypes :: "string list" where
  "helperTypes = [''grid'', ''axes'']"

text \<open>
  The \<^verbatim>\<open>switch\<close> over \<^verbatim>\<open>lightType\<close> and \<^verbatim>\<open>helperType\<close>; \<open>None\<close> is the default
  branch. Colours, intensities and the light's target are not kept.
\<close>

definition makeLight :: "config \<Rightarrow> three_obj option" where
  "makeLight cfg =
    (case lightType cfg of
       None \<Rightarrow> None
     | Some t \<Rightarrow> if t \<in> set lightTypes then Some (applyPos (pos cfg) (newObject Light)) else None)"

definition makeHelper :: "config \<Rightarrow> three_obj option" where
  "makeHelper cfg =
    (case helperType cfg of
       None \<Rightarrow> None
     | Some t \<Rightarrow> if t \<in> set helperTypes then Some (applyPos (pos cfg) (newObject Helper)) else None)"

definition makeGroup :: "three_lib \<Rightarrow> config \<Rightarrow> three_obj" where
  "makeGroup lib cfg =
    applyScale (scale cfg)
      ((case euler cfg of None \<Rightarrow> (\<lambda>ob. ob) | Some d \<Rightarrow> setRotation lib (eulerRad d))
        (applyPos (pos cfg) (newObject Group)))"

text \<open>The mesh of a config, from its geometry, its material and its visibility.\<close>

definition makeMesh ::
  "three_lib \<Rightarrow> config \<Rightarrow> geometry \<Rightarrow> material_obj \<Rightarrow> bool option \<Rightarrow> three_obj" where
  "makeMesh lib cfg g m vis =
    (applyScale (scale cfg)
      (applyRotation lib (euler cfg) (rot cfg)
        (applyPos (pos cfg)
          ((newObject Mesh)\<lparr>obj_geometry := Some g, obj_material := Some m\<rparr>))))\<lparr>visible := vis\<rparr>"

text \<open>
  The layer opacity on a new material. The comparison \<^verbatim>\<open>layerOpacity < 1\<close> is false
  for \<^verbatim>\<open>undefined\<close>.
\<close>

definition layerOpacityOn :: "real option \<Rightarrow> material_obj \<Rightarrow> material_obj" where
  "layerOpacityOn lo m =
    (case lo of
       None \<Rightarrow> m
     | Some v \<Rightarrow> if v < 1 then m\<lparr>transparent := True, opacity := opacity m * v\<rparr> else m)"

definition shapeOf :: "config \<Rightarrow> shape" where
  "shapeOf cfg = (case shape cfg of None \<Rightarrow> emptyShape | Some sh \<Rightarrow> sh)"

definition materialOf :: "config \<Rightarrow> material_cfg" where
  "materialOf cfg = (case material cfg of None \<Rightarrow> phongCfg | Some m \<Rightarrow> m)"

text \<open>The defaults \<^verbatim>\<open>enabled = true\<close> and \<^verbatim>\<open>layer = "main"\<close>.\<close>

definition withDefaults :: "config \<Rightarrow> config" where
  "withDefaults cfg =
    (let c1 = (if enabled cfg = None then cfg\<lparr>enabled := Some True\<rparr> else cfg)
     in if truthy (layer c1) then c1 else c1\<lparr>layer := Some ''main''\<rparr>)"

text \<open>The name given to a config without one; an absent id prints as \<^verbatim>\<open>undefined\<close>.\<close>

definition fallbackName :: "config \<Rightarrow> string option \<Rightarrow> string" where
  "fallbackName cfg i =
    strOr (case shape cfg of None \<Rightarrow> None | Some sh \<Rightarrow> stype sh) (strOr (ctype cfg) ''object'')
      @ '' '' @ (case i of None \<Rightarrow> ''undefined'' | Some x \<Rightarrow> x)"

definition named :: "config \<Rightarrow> string option \<Rightarrow> config" where
  "named cfg i = (if truthy (name cfg) then cfg else cfg\<lparr>name := Some (fallbackName cfg i)\<rparr>)"

section \<open>The object registry\<close>

text \<open>The first element that satisfies a predicate, with its index.\<close>

fun findEntry :: "('a \<Rightarrow> bool) \<Rightarrow> 'a list \<Rightarrow> (nat \<times> 'a) option" where
  "findEntry P [] = None"
| "findEntry P (x # xs) =
    (if P x then Some (0, x)
     else (case findEntry P xs of None \<Rightarrow> None | Some (i, y) \<Rightarrow> Some (Suc i, y)))"

definition heapUpd ::
  "nat \<Rightarrow> (three_obj \<Rightarrow> three_obj) \<Rightarrow> (nat \<Rightarrow> three_obj option) \<Rightarrow> (nat \<Rightarrow> three_obj option)" where
  "heapUpd r f h = (case h r of None \<Rightarrow> h | Some ob \<Rightarrow> h(r \<mapsto> f ob))"

text \<open>The block \<^verbatim>\<open>if (addedObj) { .. }\<close> of \<^verbatim>\<open>addObject\<close>.\<close>

definition storeObject :: "config \<Rightarrow> three_obj \<Rightarrow> isocard \<Rightarrow> string option option \<times> isocard" where
  "storeObject cfg ob s =
    (let i = name cfg;
         r = nextRef s;
         ob' = ob\<lparr>ud_layer := layer cfg, ud_enabled := enabled cfg\<rparr>
     in (Some i,
         s\<lparr>heap := (heap s)(r \<mapsto> ob'), nextRef := Suc r,
           objects := objects s @ [\<lparr>eid = i, threeObj = r, econfig = named cfg i\<rparr>],
           scene := scene s @ [r]\<rparr>))"

text \<open>
  A static sphere with an attraction strength is recorded in \<^verbatim>\<open>this.attractors\<close>.
\<close>

definition isAttractor :: "config \<Rightarrow> real option" where
  "isAttractor cfg =
    (case shape cfg of
       None \<Rightarrow> None
     | Some sh \<Rightarrow>
        (case physics cfg of
           None \<Rightarrow> None
         | Some ph \<Rightarrow>
            if stype sh = Some ''sphere'' \<and> motionType ph = Some ''static''
               \<and> gravityStrength_p ph \<noteq> None \<and> gravityStrength_p ph \<noteq> Some 0
            then gravityStrength_p ph else None))"

text \<open>
  \<^verbatim>\<open>addObject\<close>. The result is \<open>None\<close> for \<^verbatim>\<open>null\<close> and \<open>Some i\<close> for the id \<open>i\<close>, which
  is the name of the config and is itself absent when the config has no name. The
  background, fog and camera of a scene config are not kept. After the test of the
  layer the lookup finds a value, so the branch for \<open>Absent\<close> is never taken.
\<close>

definition addObject :: "config \<Rightarrow> isocard \<Rightarrow> string option option \<times> isocard" where
  "addObject config0 s0 =
    (let cfg = withDefaults config0;
         l = strOr (layer cfg) ''main'';
         s = ensureLayer l 0.5 s0
     in if ctype cfg = Some ''scene'' then
          (None, case gravity cfg of None \<Rightarrow> s | Some g \<Rightarrow> setGravityConfig g s)
        else if ctype cfg = Some ''light'' then
          (case makeLight cfg of None \<Rightarrow> (None, s) | Some ob \<Rightarrow> storeObject cfg ob s)
        else if ctype cfg = Some ''helper'' then
          (case makeHelper cfg of None \<Rightarrow> (None, s) | Some ob \<Rightarrow> storeObject cfg ob s)
        else if ctype cfg = Some ''mesh'' \<or> \<not> truthy (ctype cfg) then
          (case createGeometry (shapeOf cfg) of
             None \<Rightarrow> (None, s)
           | Some g \<Rightarrow>
              (case createMaterialFromObj (materialOf cfg) of
                 None \<Rightarrow> (None, s)
               | Some m \<Rightarrow>
                  (case layerAt s l of
                     Absent \<Rightarrow> (None, s)
                   | Found layerVisible layerOpacity \<Rightarrow>
                      (let mesh = makeMesh (THREE s) cfg g (layerOpacityOn layerOpacity m)
                                    (jsAnd (enabled cfg) layerVisible);
                           s' = (case isAttractor cfg of
                                   None \<Rightarrow> s
                                 | Some k \<Rightarrow>
                                    s\<lparr>attractors := attractors s @ [(position mesh, k)]\<rparr>)
                       in storeObject cfg mesh s'))))
        else if ctype cfg = Some ''group'' then storeObject cfg (makeGroup (THREE s) cfg) s
        else (None, s))"

text \<open>
  \<^verbatim>\<open>addObjectsToLayer\<close>: the layer is made with opacity 1 when it is missing, and
  every config is added with its layer forced. The source pushes the same constant
  for every config, so the result only counts them.
\<close>

definition addObjectsToLayer :: "string \<Rightarrow> config list \<Rightarrow> isocard \<Rightarrow> nat \<times> isocard" where
  "addObjectsToLayer layerId cfgs s0 =
    (length cfgs,
     fold (\<lambda>c s. snd (addObject (c\<lparr>layer := Some layerId\<rparr>) s)) cfgs
       (ensureLayer layerId 1 s0))"

text \<open>
  \<^verbatim>\<open>selectObject\<close>: the old selection box leaves the scene, and a new one, around
  the mesh found, enters it.
\<close>

definition selectObject :: "string option \<Rightarrow> isocard \<Rightarrow> isocard" where
  "selectObject i s =
    (let s1 = (case selectedHelper s of
                 None \<Rightarrow> s
               | Some h \<Rightarrow> s\<lparr>scene := remove1 h (scene s), selectedHelper := None\<rparr>)
     in case findEntry (\<lambda>e. eid e = i) (objects s1) of
          None \<Rightarrow> s1
        | Some (_, it) \<Rightarrow>
           (case heap s1 (threeObj it) of
              None \<Rightarrow> s1
            | Some ob \<Rightarrow>
               if kind ob = Mesh then
                 (let r = nextRef s1
                  in s1\<lparr>heap := (heap s1)(r \<mapsto> newObject (BoxHelper (threeObj it))),
                        nextRef := Suc r, selectedHelper := Some r,
                        scene := scene s1 @ [r]\<rparr>)
               else s1))"

definition disposeObj :: "three_obj \<Rightarrow> three_obj" where
  "disposeObj ob =
    ob\<lparr>obj_geometry := map_option (\<lambda>g. g\<lparr>geo_disposed := True\<rparr>) (obj_geometry ob),
       obj_material := map_option (\<lambda>m. m\<lparr>mat_disposed := True\<rparr>) (obj_material ob)\<rparr>"

text \<open>The success block of \<^verbatim>\<open>replaceObject\<close>: the new entry goes between the two parts.\<close>

definition reinsert ::
  "string option \<Rightarrow> config \<Rightarrow> three_obj \<Rightarrow> entry list \<Rightarrow> entry list \<Rightarrow> isocard \<Rightarrow> bool \<times> isocard" where
  "reinsert i cfg ob front back s =
    (let r = nextRef s;
         ob' = ob\<lparr>ud_layer := layer cfg, ud_enabled := enabled cfg\<rparr>;
         s1 = s\<lparr>heap := (heap s)(r \<mapsto> ob'), nextRef := Suc r,
                objects := (front @ [\<lparr>eid = i, threeObj = r, econfig = named cfg i\<rparr>]) @ back,
                scene := scene s @ [r]\<rparr>
     in (True, if selectedHelper s1 \<noteq> None then selectObject i s1 else s1))"

text \<open>
  \<^verbatim>\<open>replaceObject\<close>. The old object leaves the scene and is disposed first; \<open>temp\<close> is
  \<^verbatim>\<open>tempObjects\<close>, the array after \<^verbatim>\<open>splice(index, 1)\<close>; every failure branch assigns
  \<^verbatim>\<open>[...this.objects, ...tempObjects.slice(index)]\<close>. No layer is made here: the
  opacity of the layer is applied when the lookup finds a value, and a layer that is
  not found counts as visible.
\<close>

definition replaceObject :: "string option \<Rightarrow> config \<Rightarrow> isocard \<Rightarrow> bool \<times> isocard" where
  "replaceObject i newConfig0 s0 =
    (case findEntry (\<lambda>e. eid e = i) (objects s0) of
       None \<Rightarrow> (False, s0)
     | Some (index, oldObj) \<Rightarrow>
        (let s1 = s0\<lparr>scene := remove1 (threeObj oldObj) (scene s0),
                     heap := heapUpd (threeObj oldObj) disposeObj (heap s0)\<rparr>;
             temp = take index (objects s0) @ drop (Suc index) (objects s0);
             front = take index temp;
             back = drop index temp;
             failed = (False, s1\<lparr>objects := front @ back\<rparr>);
             cfg = withDefaults newConfig0
         in if ctype cfg = Some ''light'' then
              (case makeLight cfg of None \<Rightarrow> failed | Some ob \<Rightarrow> reinsert i cfg ob front back s1)
            else if ctype cfg = Some ''helper'' then
              (case makeHelper cfg of None \<Rightarrow> failed | Some ob \<Rightarrow> reinsert i cfg ob front back s1)
            else if ctype cfg = Some ''mesh'' \<or> \<not> truthy (ctype cfg) then
              (case createGeometry (shapeOf cfg) of
                 None \<Rightarrow> failed
               | Some g \<Rightarrow>
                  (case createMaterialFromObj (materialOf cfg) of
                     None \<Rightarrow> failed
                   | Some m \<Rightarrow>
                      (let found = layerAt s1 (strOr (layer cfg) ''main'');
                           m' = (case found of
                                   Absent \<Rightarrow> m
                                 | Found _ layerOpacity \<Rightarrow> layerOpacityOn layerOpacity m);
                           vis = jsAnd (enabled cfg)
                                   (case found of
                                      Absent \<Rightarrow> Some True
                                    | Found layerVisible _ \<Rightarrow> layerVisible)
                       in reinsert i cfg (makeMesh (THREE s1) cfg g m' vis) front back s1)))
            else if ctype cfg = Some ''group'' then
              reinsert i cfg (makeGroup (THREE s1) cfg) front back s1
            else failed))"

section \<open>Updating objects and layers\<close>

text \<open>
  \<^verbatim>\<open>updateObject\<close> and the functions after it have no \<^verbatim>\<open>try\<close>: reading a property of
  an absent layer, geometry or material throws, and the call ends there with the
  writes made so far.
\<close>

datatype outcome = Returned | Threw

definition orElse :: "'a option \<Rightarrow> 'a option \<Rightarrow> 'a option" where
  "orElse a b = (case a of None \<Rightarrow> b | Some v \<Rightarrow> Some v)"

text \<open>\<^verbatim>\<open>Object.assign(item.config, updates)\<close>.\<close>

definition assignConfig :: "config \<Rightarrow> config \<Rightarrow> config" where
  "assignConfig c u =
    \<lparr>ctype = orElse (ctype u) (ctype c), name = orElse (name u) (name c),
     layer = orElse (layer u) (layer c), enabled = orElse (enabled u) (enabled c),
     shape = orElse (shape u) (shape c), material = orElse (material u) (material c),
     color = orElse (color u) (color c), pos = orElse (pos u) (pos c),
     rot = orElse (rot u) (rot c), euler = orElse (euler u) (euler c),
     scale = orElse (scale u) (scale c), lightType = orElse (lightType u) (lightType c),
     helperType = orElse (helperType u) (helperType c),
     physics = orElse (physics u) (physics c), gravity = orElse (gravity u) (gravity c)\<rparr>"

text \<open>\<^verbatim>\<open>config.material?.opacity || 1\<close>.\<close>

definition baseOpacity :: "config \<Rightarrow> real" where
  "baseOpacity cfg = jsor (case material cfg of None \<Rightarrow> None | Some m \<Rightarrow> mopacity m) 1"

text \<open>
  The block of \<^verbatim>\<open>updateObject\<close> for a change of layer, with the \<^verbatim>\<open>visible\<close> and the
  \<^verbatim>\<open>opacity\<close> of the value that the lookup of the layer finds.
\<close>

definition updLayer ::
  "config \<Rightarrow> string \<Rightarrow> bool option \<Rightarrow> real option \<Rightarrow> three_obj \<Rightarrow> three_obj" where
  "updLayer cfg l layerVisible layerOpacity ob =
    (let ob1 = ob\<lparr>ud_layer := Some l,
                  visible := (if enabled cfg = Some False then Some False else layerVisible)\<rparr>
     in if kind ob1 = Mesh then
          (case obj_material ob1 of
             None \<Rightarrow> ob1
           | Some m \<Rightarrow>
              (case layerOpacity of
                 None \<Rightarrow> ob1\<lparr>obj_material := Some (m\<lparr>opacity := baseOpacity cfg\<rparr>)\<rparr>
               | Some v \<Rightarrow>
                  if v < 1 then
                    ob1\<lparr>obj_material :=
                          Some (m\<lparr>transparent := True, opacity := baseOpacity cfg * v\<rparr>)\<rparr>
                  else ob1\<lparr>obj_material := Some (m\<lparr>opacity := baseOpacity cfg\<rparr>)\<rparr>))
        else ob1)"

text \<open>
  The block for a change of \<^verbatim>\<open>enabled\<close>: \<^verbatim>\<open>updates.enabled && this.layers[layer].visible\<close>
  reads the layer only when \<^verbatim>\<open>enabled\<close> is true.
\<close>

definition updEnabled :: "config \<Rightarrow> bool \<Rightarrow> isocard \<Rightarrow> three_obj \<Rightarrow> outcome \<times> three_obj" where
  "updEnabled cfg en s ob =
    (let ob1 = ob\<lparr>ud_enabled := Some en\<rparr>
     in if \<not> en then (Returned, ob1\<lparr>visible := Some False\<rparr>)
        else
          (case layerAt s (strOr (layer cfg) ''main'') of
             Absent \<Rightarrow> (Threw, ob1)
           | Found layerVisible _ \<Rightarrow> (Returned, ob1\<lparr>visible := layerVisible\<rparr>)))"

definition updGeometry :: "config \<Rightarrow> three_obj \<Rightarrow> outcome \<times> three_obj" where
  "updGeometry cfg ob =
    (if kind ob = Mesh then
       (case createGeometry (shapeOf cfg) of
          None \<Rightarrow> (Returned, ob)
        | Some g \<Rightarrow>
           (case obj_geometry ob of
              None \<Rightarrow> (Threw, ob)
            | Some _ \<Rightarrow> (Returned, ob\<lparr>obj_geometry := Some g\<rparr>)))
     else (Returned, ob))"

definition updMaterial :: "config \<Rightarrow> isocard \<Rightarrow> three_obj \<Rightarrow> outcome \<times> three_obj" where
  "updMaterial cfg s ob =
    (if kind ob = Mesh then
       (case createMaterialFromObj (materialOf cfg) of
          None \<Rightarrow> (Returned, ob)
        | Some m \<Rightarrow>
           (case layerAt s (strOr (layer cfg) ''main'') of
              Absent \<Rightarrow> (Threw, ob)
            | Found _ layerOpacity \<Rightarrow>
               (case obj_material ob of
                  None \<Rightarrow> (Threw, ob)
                | Some _ \<Rightarrow>
                   (Returned, ob\<lparr>obj_material := Some (layerOpacityOn layerOpacity m)\<rparr>))))
     else (Returned, ob))"

text \<open>Run a step unless an earlier one threw.\<close>

definition andThen ::
  "outcome \<times> three_obj \<Rightarrow> (three_obj \<Rightarrow> outcome \<times> three_obj) \<Rightarrow> outcome \<times> three_obj" where
  "andThen r f = (case r of (Returned, ob) \<Rightarrow> f ob | (Threw, ob) \<Rightarrow> (Threw, ob))"

text \<open>
  \<^verbatim>\<open>updateObject\<close>. The colour and intensity of a light are not kept, so the block for
  lights changes nothing here. After the test of the layer the lookup finds a value,
  so the branch for \<open>Absent\<close> in the block for the layer is never taken.
\<close>

definition updateObject :: "string option \<Rightarrow> config \<Rightarrow> isocard \<Rightarrow> outcome \<times> isocard" where
  "updateObject i updates s =
    (case findEntry (\<lambda>e. eid e = i) (objects s) of
       None \<Rightarrow> (Returned, s)
     | Some (index, item) \<Rightarrow>
        (let cfg = assignConfig (econfig item) updates;
             s1 = s\<lparr>objects := (objects s)[index := item\<lparr>econfig := cfg\<rparr>]\<rparr>
         in case heap s1 (threeObj item) of
              None \<Rightarrow> (Threw, s1)
            | Some ob0 \<Rightarrow>
               (let ob1 = applyScale (scale updates)
                            (applyRotation (THREE s1) (euler updates) (rot updates)
                              (applyPos (pos updates) ob0));
                    s2 = (case layer updates of
                            None \<Rightarrow> s1
                          | Some l \<Rightarrow> ensureLayer l 0.5 s1);
                    r2 = (case layer updates of
                            None \<Rightarrow> (Returned, ob1)
                          | Some l \<Rightarrow>
                             (case layerAt s2 l of
                                Absent \<Rightarrow> (Threw, ob1\<lparr>ud_layer := Some l\<rparr>)
                              | Found layerVisible layerOpacity \<Rightarrow>
                                 (Returned, updLayer cfg l layerVisible layerOpacity ob1)));
                    r3 = andThen r2
                           (\<lambda>ob. case enabled updates of
                                   None \<Rightarrow> (Returned, ob)
                                 | Some en \<Rightarrow> updEnabled cfg en s2 ob);
                    r4 = andThen r3
                           (\<lambda>ob. if shape updates \<noteq> None then updGeometry cfg ob
                                 else (Returned, ob));
                    r5 = andThen r4
                           (\<lambda>ob. if material updates \<noteq> None then updMaterial cfg s2 ob
                                 else (Returned, ob))
                in (fst r5, s2\<lparr>heap := (heap s2)(threeObj item \<mapsto> snd r5)\<rparr>))))"

text \<open>The body of the loop of \<^verbatim>\<open>updateLayerOpacity\<close>, for an object of the layer.\<close>

definition opacityOnMesh :: "real \<Rightarrow> config \<Rightarrow> three_obj \<Rightarrow> three_obj" where
  "opacityOnMesh op cfg ob =
    (if kind ob = Mesh then
       (case obj_material ob of
          None \<Rightarrow> ob
        | Some m \<Rightarrow>
           (let baseMaterialOpacity = baseOpacity cfg
            in if op < 1 then
                 ob\<lparr>obj_material :=
                      Some (m\<lparr>transparent := True, opacity := baseMaterialOpacity * op\<rparr>)\<rparr>
               else
                 ob\<lparr>obj_material :=
                      Some (m\<lparr>opacity := baseMaterialOpacity,
                              transparent := (if baseMaterialOpacity = 1 then False
                                              else transparent m)\<rparr>)\<rparr>))
     else ob)"

text \<open>
  \<^verbatim>\<open>updateLayerOpacity\<close>. The opacity is written to the value that the lookup finds:
  the layer, or the inherited value when the name is an inherited one.
\<close>

definition updateLayerOpacity :: "string \<Rightarrow> real \<Rightarrow> isocard \<Rightarrow> isocard" where
  "updateLayerOpacity layerId op s =
    (let s1 = ensureLayer layerId 0.5 s;
         s2 = (case layers s1 layerId of
                 Some li \<Rightarrow> s1\<lparr>layers := (layers s1)(layerId \<mapsto> li\<lparr>lopacity := op\<rparr>)\<rparr>
               | None \<Rightarrow> s1\<lparr>protoOpacity := (protoOpacity s1)(layerId \<mapsto> op)\<rparr>)
     in s2\<lparr>heap := fold (\<lambda>e h. if strOr (layer (econfig e)) ''main'' = layerId
                               then heapUpd (threeObj e) (opacityOnMesh op (econfig e)) h
                               else h)
                     (objects s) (heap s)\<rparr>)"

section \<open>Attaching physics bodies\<close>

definition half :: "real option \<Rightarrow> real option" where
  "half v = map_option (\<lambda>a. a / 2) v"

definition maxOpt :: "real option \<Rightarrow> real option \<Rightarrow> real option" where
  "maxOpt a b = (case a of None \<Rightarrow> None | Some x \<Rightarrow> map_option (max x) b)"

definition boundingBox :: "vec3 \<Rightarrow> jolt_shape" where
  "boundingBox sz = BoxShape (Some (vx sz / 2)) (Some (vy sz / 2)) (Some (vz sz / 2))"

text \<open>
  The \<^verbatim>\<open>switch\<close> over the type of the scaled shape in \<^verbatim>\<open>convertObjectToDynamic\<close>;
  \<open>sz\<close> is the size of the bounding box of the mesh.
\<close>

definition joltShapeOf :: "shape option \<Rightarrow> vec3 \<Rightarrow> jolt_shape" where
  "joltShapeOf scaled sz =
    (case scaled of
       None \<Rightarrow> boundingBox sz
     | Some sh \<Rightarrow>
        if stype sh = Some ''box'' then
          BoxShape (half (width sh)) (half (height sh)) (half (depth sh))
        else if stype sh = Some ''sphere'' then SphereShape (radius sh)
        else if stype sh = Some ''plane'' then
          BoxShape (half (width sh)) (Some 0.01) (half (height sh))
        else if stype sh = Some ''cylinder'' then
          (if radiusTop sh = radiusBottom sh then CylinderShape (half (height sh)) (radiusTop sh)
           else BoxShape (maxOpt (radiusTop sh) (radiusBottom sh)) (half (height sh))
                  (maxOpt (radiusTop sh) (radiusBottom sh)))
        else if stype sh = Some ''cone'' then
          BoxShape (radius sh) (half (height sh)) (radius sh)
        else if stype sh = Some ''torus'' then CylinderShape (tube sh) (radius sh)
        else if stype sh = Some ''capsule'' then CapsuleShape (half (height sh)) (radius sh)
        else boundingBox sz)"

text \<open>The \<^verbatim>\<open>switch\<close> over \<^verbatim>\<open>physicsConfig.motionType\<close>.\<close>

definition motionOf :: "string option \<Rightarrow> motion" where
  "motionOf m =
    (if m = Some ''static'' then EMotionType_Static
     else if m = Some ''kinematic'' then EMotionType_Kinematic
     else EMotionType_Dynamic)"

definition layerOf :: "motion \<Rightarrow> nat" where
  "layerOf mt = (if mt = EMotionType_Static then LAYER_NON_MOVING else LAYER_MOVING)"

text \<open>
  The body that \<^verbatim>\<open>CreateBody\<close> makes from the creation settings, with the friction and
  restitution set after creation; the mass is overridden only for a dynamic body. The
  position and the rotation of the mesh go through the constructors of the module.
\<close>

definition createBody ::
  "jolt_ops \<Rightarrow> jolt_shape \<Rightarrow> three_obj \<Rightarrow> physics_cfg \<Rightarrow> string option \<Rightarrow> body" where
  "createBody ops joltShape mesh physicsConfig i =
    (let mt = motionOf (motionType physicsConfig)
     in \<lparr>b_shape = joltShape, b_position = jRVec3 ops (position mesh),
         b_rotation = jQuat ops (quaternion mesh),
         b_motion = mt, b_layer = layerOf mt,
         b_massOverride = (if mt = EMotionType_Dynamic then mass physicsConfig else None),
         b_friction = friction physicsConfig, b_restitution = restitution physicsConfig,
         b_linearVelocity = Vec3 0 0 0, b_angularVelocity = Vec3 0 0 0,
         b_force = Vec3 0 0 0, b_name = i\<rparr>)"

text \<open>The properties deleted from \<^verbatim>\<open>userData\<close> when the mesh already has a body.\<close>

definition releaseBody :: "three_obj \<Rightarrow> three_obj" where
  "releaseBody mesh =
    (case ud_body mesh of
       None \<Rightarrow> mesh
     | Some b \<Rightarrow> mesh\<lparr>ud_body := None, ud_isStatic := None, ud_isDynamic := None\<rparr>)"

definition attachBody :: "nat \<Rightarrow> physics_cfg \<Rightarrow> three_obj \<Rightarrow> three_obj" where
  "attachBody bid physicsConfig mesh =
    (let mt = motionOf (motionType physicsConfig)
     in mesh\<lparr>ud_body := Some bid, ud_isDynamic := Some (mt = EMotionType_Dynamic),
             ud_isStatic := Some (mt = EMotionType_Static),
             ud_isKinematic := Some (mt = EMotionType_Kinematic),
             ud_physicsConfig := Some physicsConfig\<rparr>)"

text \<open>The list \<^verbatim>\<open>dynamicObjects\<close> after a body of motion type \<open>mt\<close> is attached to \<open>r\<close>.\<close>

definition dynamicAfter :: "motion \<Rightarrow> nat \<Rightarrow> nat list \<Rightarrow> nat list" where
  "dynamicAfter mt r dyn =
    (if mt = EMotionType_Dynamic then (if r \<in> set dyn then dyn else dyn @ [r])
     else remove1 r dyn)"

text \<open>
  \<^verbatim>\<open>convertObjectToDynamic\<close>. \<open>boxSize\<close> is THREE's bounding box of a mesh. The calls
  into the engine are taken to succeed when \<^verbatim>\<open>bodyInterface\<close> is set; without it the
  first of them throws and the \<^verbatim>\<open>catch\<close> returns \<^verbatim>\<open>false\<close> before any write.
\<close>

definition convertObjectToDynamic ::
  "(three_obj \<Rightarrow> vec3) \<Rightarrow> string option \<Rightarrow> physics_cfg \<Rightarrow> isocard \<Rightarrow> bool \<times> isocard" where
  "convertObjectToDynamic boxSize i physicsConfig s =
    (case jolt s of
       None \<Rightarrow> (False, s)
     | Some ops \<Rightarrow>
        if \<not> jInterface s then (False, s)
        else
          (case findEntry (\<lambda>e. eid e = i) (objects s) of
             None \<Rightarrow> (False, s)
           | Some (index, item) \<Rightarrow>
              (case heap s (threeObj item) of
                 None \<Rightarrow> (False, s)
               | Some mesh0 \<Rightarrow>
                  if kind mesh0 \<noteq> Mesh then (False, s)
                  else if \<not> bodyInterface s then (False, s)
                  else
                    (let r = threeObj item;
                         bodies1 = (case ud_body mesh0 of
                                      None \<Rightarrow> bodies s
                                    | Some b \<Rightarrow> (bodies s)(b := None));
                         mesh1 = releaseBody mesh0;
                         joltShape = joltShapeOf (getScaledShapeDimensions (econfig item) mesh1)
                                       (boxSize mesh1);
                         bid = nextBody s;
                         item' = item\<lparr>econfig := (econfig item)\<lparr>physics := Some physicsConfig\<rparr>\<rparr>
                     in (True,
                         s\<lparr>bodies := bodies1(bid \<mapsto> createBody ops joltShape mesh1 physicsConfig i),
                           nextBody := Suc bid,
                           heap := (heap s)(r \<mapsto> attachBody bid physicsConfig mesh1),
                           objects := (objects s)[index := item'],
                           dynamicObjects :=
                             dynamicAfter (motionOf (motionType physicsConfig)) r
                               (dynamicObjects s)\<rparr>)))))"

section \<open>Transform snapshots\<close>

text \<open>\<^verbatim>\<open>Map.prototype.set\<close> on a map kept in insertion order.\<close>

fun mapSet :: "'k \<Rightarrow> 'v \<Rightarrow> ('k \<times> 'v) list \<Rightarrow> ('k \<times> 'v) list" where
  "mapSet k v [] = [(k, v)]"
| "mapSet k v (p # ps) = (if fst p = k then (k, v) # ps else p # mapSet k v ps)"

definition snapshot :: "three_obj \<Rightarrow> transform" where
  "snapshot ob =
    \<lparr>t_position = position ob, t_quaternion = quaternion ob, t_scale = obj_scale ob,
     t_rotation = rotation ob\<rparr>"

text \<open>
  The entry that the loop of \<^verbatim>\<open>saveObjectTransforms\<close> stores for an object: its id and
  the clones of its transform, for a mesh or a group.
\<close>

definition snapOf :: "(nat \<Rightarrow> three_obj option) \<Rightarrow> entry \<Rightarrow> (string option \<times> transform) option" where
  "snapOf h e =
    (case h (threeObj e) of
       None \<Rightarrow> None
     | Some ob \<Rightarrow> if kind ob = Mesh \<or> kind ob = Group then Some (eid e, snapshot ob) else None)"

definition saveOne ::
  "(nat \<Rightarrow> three_obj option) \<Rightarrow> entry \<Rightarrow> (string option \<times> transform) list
    \<Rightarrow> (string option \<times> transform) list" where
  "saveOne h e m = (case snapOf h e of None \<Rightarrow> m | Some p \<Rightarrow> mapSet (fst p) (snd p) m)"

definition saveObjectTransforms :: "isocard \<Rightarrow> isocard" where
  "saveObjectTransforms s = s\<lparr>savedTransforms := fold (saveOne (heap s)) (objects s) []\<rparr>"

text \<open>
  The four copies of \<^verbatim>\<open>restoreObjectTransforms\<close>, in the order of the source:
  position, quaternion, scale, rotation.
\<close>

definition putTransform :: "three_lib \<Rightarrow> transform \<Rightarrow> three_obj \<Rightarrow> three_obj" where
  "putTransform lib t ob =
    setRotation lib (t_rotation t)
      ((setQuaternion lib (t_quaternion t) (ob\<lparr>position := t_position t\<rparr>))
         \<lparr>obj_scale := t_scale t\<rparr>)"

definition bodyUpd ::
  "nat \<Rightarrow> (body \<Rightarrow> body) \<Rightarrow> (nat \<Rightarrow> body option) \<Rightarrow> (nat \<Rightarrow> body option)" where
  "bodyUpd b f bs = (case bs b of None \<Rightarrow> bs | Some bd \<Rightarrow> bs(b \<mapsto> f bd))"

definition resetBody :: "jolt_ops \<Rightarrow> transform \<Rightarrow> body \<Rightarrow> body" where
  "resetBody ops t bd =
    bd\<lparr>b_position := jRVec3 ops (t_position t), b_rotation := jQuat ops (t_quaternion t),
       b_linearVelocity := Vec3 0 0 0, b_angularVelocity := Vec3 0 0 0\<rparr>"

text \<open>
  The callback of the loop of \<^verbatim>\<open>restoreObjectTransforms\<close>. For an object with a body
  it calls the constructors of the module, which throws when the module is not set.
\<close>

definition restoreOne :: "string option \<times> transform \<Rightarrow> isocard \<Rightarrow> outcome \<times> isocard" where
  "restoreOne p s =
    (case findEntry (\<lambda>e. eid e = fst p) (objects s) of
       None \<Rightarrow> (Returned, s)
     | Some (_, e) \<Rightarrow>
        (case heap s (threeObj e) of
           None \<Rightarrow> (Returned, s)
         | Some ob \<Rightarrow>
            (let s1 = s\<lparr>heap := (heap s)(threeObj e \<mapsto> putTransform (THREE s) (snd p) ob)\<rparr>
             in case ud_body ob of
                  None \<Rightarrow> (Returned, s1)
                | Some b \<Rightarrow>
                   if bodyInterface s then
                     (case jolt s of
                        None \<Rightarrow> (Threw, s1)
                      | Some ops \<Rightarrow>
                         (Returned, s1\<lparr>bodies := bodyUpd b (resetBody ops (snd p)) (bodies s1)\<rparr>))
                   else (Returned, s1))))"

fun restoreAll :: "(string option \<times> transform) list \<Rightarrow> isocard \<Rightarrow> outcome \<times> isocard" where
  "restoreAll [] s = (Returned, s)"
| "restoreAll (p # ps) s =
    (case restoreOne p s of
       (Threw, s') \<Rightarrow> (Threw, s')
     | (Returned, s') \<Rightarrow> restoreAll ps s')"

definition restoreObjectTransforms :: "isocard \<Rightarrow> outcome \<times> isocard" where
  "restoreObjectTransforms s = restoreAll (savedTransforms s) s"

definition startPhysics :: "isocard \<Rightarrow> bool \<times> isocard" where
  "startPhysics s =
    (if jolt s = None \<or> \<not> jInterface s then (False, s)
     else (True, (saveObjectTransforms s)\<lparr>isPhysicsRunning := True, lastActionTime := 0\<rparr>))"

text \<open>
  \<^verbatim>\<open>stopPhysics\<close>. Past its test the module is set, so the restore does not throw
  (lemma \<open>restoreObjectTransforms_returns\<close> below).
\<close>

definition stopPhysics :: "isocard \<Rightarrow> bool \<times> isocard" where
  "stopPhysics s =
    (if jolt s = None \<or> \<not> jInterface s then (False, s)
     else (True, snd (restoreObjectTransforms (s\<lparr>isPhysicsRunning := False\<rparr>))))"

section \<open>The simulation tick\<close>

text \<open>
  The force that the radial model adds to a body at \<open>p\<close> with inverse mass \<open>invMass\<close>:
  the body of the loop over the dynamic objects, \<open>None\<close> when no force is added. The
  difference, its squared length and its unit vector are what the module computes.
\<close>

definition radialForce :: "jolt_ops \<Rightarrow> real \<Rightarrow> vec3 \<Rightarrow> real \<Rightarrow> vec3 \<Rightarrow> vec3 option" where
  "radialForce ops strength center invMass p =
    (let dir = jSub ops p center;
         distSq = jLengthSq ops dir
     in if distSq > 0.0001 then
          (let unitDir = jNormalized ops dir;
               forceMag = strength / distSq;
               m = (if invMass > 0 then 1 / invMass else 0)
           in if m > 0 then Some (jMul ops unitDir (- forceMag * m)) else None)
        else None)"

definition AddForce :: "jolt_ops \<Rightarrow> vec3 \<Rightarrow> body \<Rightarrow> body" where
  "AddForce ops f bd = bd\<lparr>b_force := jAdd ops (b_force bd) f\<rparr>"

definition radialOnBody :: "jolt_ops \<Rightarrow> (body \<Rightarrow> real) \<Rightarrow> real \<Rightarrow> vec3 \<Rightarrow> body \<Rightarrow> body" where
  "radialOnBody ops getInverseMass strength center bd =
    (case radialForce ops strength center (getInverseMass bd) (b_position bd) of
       None \<Rightarrow> bd
     | Some f \<Rightarrow> AddForce ops f bd)"

text \<open>
  The loop of the radial model; the centre is \<^verbatim>\<open>this.gravityCenter\<close> passed through
  the constructor \<^verbatim>\<open>RVec3\<close>.
\<close>

definition applyRadialGravity :: "jolt_ops \<Rightarrow> (body \<Rightarrow> real) \<Rightarrow> isocard \<Rightarrow> (nat \<Rightarrow> body option)" where
  "applyRadialGravity ops getInverseMass s =
    fold (\<lambda>r bs. case heap s r of
                   None \<Rightarrow> bs
                 | Some ob \<Rightarrow>
                    (case ud_body ob of
                       None \<Rightarrow> bs
                     | Some b \<Rightarrow>
                        bodyUpd b (radialOnBody ops getInverseMass (gravityStrength s)
                                     (jRVec3 ops (gravityCenter s))) bs))
      (dynamicObjects s) (bodies s)"

text \<open>The copy of the transform of its body into a dynamic object.\<close>

definition pullTransform :: "three_lib \<Rightarrow> (nat \<Rightarrow> body option) \<Rightarrow> three_obj \<Rightarrow> three_obj" where
  "pullTransform lib bs ob =
    (case ud_body ob of
       None \<Rightarrow> ob
     | Some b \<Rightarrow>
        (case bs b of
           None \<Rightarrow> ob
         | Some bd \<Rightarrow> setQuaternion lib (b_rotation bd) (ob\<lparr>position := b_position bd\<rparr>)))"

definition subSteps :: "real \<Rightarrow> nat" where
  "subSteps deltaTime = (if deltaTime > 1 / 55 then 2 else 1)"

text \<open>
  The physics part of \<^verbatim>\<open>animate\<close>, for one frame. \<open>elapsed\<close> is what
  \<^verbatim>\<open>clock.getDelta()\<close> returns, \<open>getInverseMass\<close> what the engine reports for a body and
  \<open>engineStep\<close> what the engine's \<^verbatim>\<open>Step\<close> does to the bodies. With
  \<^verbatim>\<open>actionsPerSecond\<close> zero the interval is infinite and the comparison is false.
  Under radial gravity the first statement calls a constructor of the module; without
  the module it throws, before any write.
\<close>

definition animate ::
  "(body \<Rightarrow> real) \<Rightarrow> (real \<Rightarrow> nat \<Rightarrow> (nat \<Rightarrow> body option) \<Rightarrow> (nat \<Rightarrow> body option))
    \<Rightarrow> real \<Rightarrow> isocard \<Rightarrow> isocard" where
  "animate getInverseMass engineStep elapsed s =
    (if jInterface s \<and> isPhysicsRunning s then
       (let deltaTime = min elapsed (1 / 30)
        in case (if gravityType s = ''radial''
                 then map_option (\<lambda>ops. applyRadialGravity ops getInverseMass s) (jolt s)
                 else Some (bodies s)) of
             None \<Rightarrow> s
           | Some bs1 \<Rightarrow>
              (let numSteps = subSteps deltaTime;
                   bs2 = engineStep deltaTime numSteps bs1;
                   h = fold (\<lambda>r. heapUpd r (pullTransform (THREE s) bs2)) (dynamicObjects s)
                         (heap s);
                   due = (actionsPerSecond s \<noteq> 0
                          \<and> simTime s - lastActionTime s \<ge> 1 / actionsPerSecond s)
               in s\<lparr>bodies := bs2, stepLog := (deltaTime, numSteps) # stepLog s, heap := h,
                    lastActionTime := (if due then simTime s else lastActionTime s),
                    simTime := simTime s + deltaTime\<rparr>))
     else s)"

text \<open>\<^verbatim>\<open>updatePhysics\<close>; it throws when the engine's interface is not set.\<close>

definition updatePhysics ::
  "(real \<Rightarrow> nat \<Rightarrow> (nat \<Rightarrow> body option) \<Rightarrow> (nat \<Rightarrow> body option)) \<Rightarrow> real \<Rightarrow> isocard
    \<Rightarrow> isocard option" where
  "updatePhysics engineStep deltaTime s =
    (if jInterface s then
       Some (s\<lparr>bodies := engineStep deltaTime (subSteps deltaTime) (bodies s),
              stepLog := (deltaTime, subSteps deltaTime) # stepLog s\<rparr>)
     else None)"

text \<open>
  The loop of \<^verbatim>\<open>renderSync\<close> over the dynamic objects. Unlike the loop of
  \<^verbatim>\<open>animate\<close> it does not test for the body: for an object without one the call of
  \<^verbatim>\<open>GetPosition\<close> throws. After the copy the type of the body is compared with a
  constant of the module, which throws when the module is not set (\<open>loaded\<close> false);
  no body made by the class is a soft body.
\<close>

fun syncLoop ::
  "three_lib \<Rightarrow> bool \<Rightarrow> (nat \<Rightarrow> body option) \<Rightarrow> nat list \<Rightarrow> (nat \<Rightarrow> three_obj option)
    \<Rightarrow> outcome \<times> (nat \<Rightarrow> three_obj option)" where
  "syncLoop lib loaded bs [] h = (Returned, h)"
| "syncLoop lib loaded bs (r # rs) h =
    (case h r of
       None \<Rightarrow> syncLoop lib loaded bs rs h
     | Some ob \<Rightarrow>
        (case ud_body ob of
           None \<Rightarrow> (Threw, h)
         | Some b \<Rightarrow>
            (let h1 = h(r \<mapsto> pullTransform lib bs ob)
             in if loaded then syncLoop lib loaded bs rs h1 else (Threw, h1))))"

text \<open>
  \<^verbatim>\<open>renderSync\<close>, the tick that steps the engine through \<^verbatim>\<open>updatePhysics\<close>: the
  elapsed time is clamped, the transforms are copied, the time advances and the
  engine is stepped. It does not look at \<^verbatim>\<open>isPhysicsRunning\<close>. The callback
  \<^verbatim>\<open>onExampleUpdate\<close> is a private field that the class never sets.
\<close>

definition renderSync ::
  "(real \<Rightarrow> nat \<Rightarrow> (nat \<Rightarrow> body option) \<Rightarrow> (nat \<Rightarrow> body option)) \<Rightarrow> real \<Rightarrow> isocard
    \<Rightarrow> outcome \<times> isocard" where
  "renderSync engineStep elapsed s =
    (let deltaTime = min elapsed (1 / 30);
         r = syncLoop (THREE s) (jolt s \<noteq> None) (bodies s) (dynamicObjects s) (heap s);
         s1 = s\<lparr>heap := snd r\<rparr>
     in case fst r of
          Threw \<Rightarrow> (Threw, s1)
        | Returned \<Rightarrow>
           (let s2 = s1\<lparr>simTime := simTime s1 + deltaTime\<rparr>
            in case updatePhysics engineStep deltaTime s2 of
                 None \<Rightarrow> (Threw, s2)
               | Some s3 \<Rightarrow> (Returned, s3)))"

section \<open>Numbers of the engine\<close>

text \<open>
  The engine computes in single precision: a number that it reports is an integer
  below 2^24 in absolute value, multiplied or divided by a power of two.
\<close>

definition float32 :: "real \<Rightarrow> bool" where
  "float32 x \<longleftrightarrow>
    (\<exists>m :: int. \<exists>n :: nat. \<bar>m\<bar> < 2 ^ 24 \<and> (x = of_int m * 2 ^ n \<or> x = of_int m / 2 ^ n))"

section \<open>Libraries that compute exactly\<close>

text \<open>
  An instance of each library, used to run the model on examples: the operations
  computed over the real numbers, without rounding and without a signed zero.
\<close>

definition Sub :: "vec3 \<Rightarrow> vec3 \<Rightarrow> vec3" where
  "Sub a b = Vec3 (vx a - vx b) (vy a - vy b) (vz a - vz b)"

definition Add :: "vec3 \<Rightarrow> vec3 \<Rightarrow> vec3" where
  "Add a b = Vec3 (vx a + vx b) (vy a + vy b) (vz a + vz b)"

definition Mul :: "vec3 \<Rightarrow> real \<Rightarrow> vec3" where
  "Mul a k = Vec3 (vx a * k) (vy a * k) (vz a * k)"

definition LengthSq :: "vec3 \<Rightarrow> real" where
  "LengthSq a = vx a * vx a + vy a * vy a + vz a * vz a"

definition Normalized :: "vec3 \<Rightarrow> vec3" where
  "Normalized a = Mul a (1 / sqrt (LengthSq a))"

definition exactJolt :: jolt_ops where
  "exactJolt =
    \<lparr>jRVec3 = (\<lambda>v. v), jQuat = (\<lambda>q. q), jSub = Sub, jLengthSq = LengthSq,
     jNormalized = Normalized, jMul = Mul, jAdd = Add\<rparr>"

text \<open>The quaternion of Euler angles and the Euler angles of a quaternion, in the order XYZ.\<close>

definition eulerToQuat :: "vec3 \<Rightarrow> quat" where
  "eulerToQuat e =
    (let c1 = cos (vx e / 2); c2 = cos (vy e / 2); c3 = cos (vz e / 2);
         s1 = sin (vx e / 2); s2 = sin (vy e / 2); s3 = sin (vz e / 2)
     in Quat (s1 * c2 * c3 + c1 * s2 * s3) (c1 * s2 * c3 - s1 * c2 * s3)
             (c1 * c2 * s3 + s1 * s2 * c3) (c1 * c2 * c3 - s1 * s2 * s3))"

definition atan2 :: "real \<Rightarrow> real \<Rightarrow> real" where
  "atan2 y x =
    (if x > 0 then arctan (y / x)
     else if x < 0 then (if y \<ge> 0 then arctan (y / x) + pi else arctan (y / x) - pi)
     else if y > 0 then pi / 2 else if y < 0 then - pi / 2 else 0)"

definition quatToEuler :: "quat \<Rightarrow> vec3" where
  "quatToEuler q =
    (let x = qx q; y = qy q; z = qz q; w = qw q;
         m11 = 1 - 2 * (y * y + z * z); m12 = 2 * (x * y - w * z); m13 = 2 * (x * z + w * y);
         m22 = 1 - 2 * (x * x + z * z); m23 = 2 * (y * z - w * x);
         m32 = 2 * (y * z + w * x); m33 = 1 - 2 * (x * x + y * y)
     in if \<bar>m13\<bar> < 0.9999999 then
          Vec3 (atan2 (- m23) m33) (arcsin (max (- 1) (min 1 m13))) (atan2 (- m12) m11)
        else Vec3 (atan2 m32 m22) (arcsin (max (- 1) (min 1 m13))) 0)"

definition exactTHREE :: three_lib where
  "exactTHREE = \<lparr>setFromEuler = eulerToQuat, setFromQuaternion = quatToEuler\<rparr>"

section \<open>Example configurations\<close>

text \<open>Configs, bounding boxes and engine functions used to run the model on examples.\<close>

definition initial :: isocard where
  "initial = newIsoCard exactTHREE"

definition physicsReady :: isocard where
  "physicsReady = setupJOLT exactJolt initial"

definition meshConfig :: "string option \<Rightarrow> string \<Rightarrow> vec3 option \<Rightarrow> config" where
  "meshConfig n t p =
    \<lparr>ctype = Some ''mesh'', name = n, layer = None, enabled = None,
     shape = Some (emptyShape\<lparr>stype := Some t\<rparr>), material = None, color = None,
     pos = p, rot = None, euler = None, scale = None, lightType = None, helperType = None,
     physics = None, gravity = None\<rparr>"

definition physicsOf :: "string \<Rightarrow> physics_cfg" where
  "physicsOf m =
    \<lparr>motionType = Some m, mass = None, friction = None, restitution = None,
     gravityStrength_p = None\<rparr>"

definition unitBox :: "three_obj \<Rightarrow> vec3" where
  "unitBox ob = Vec3 1 1 1"

definition torusShape :: shape where
  "torusShape = emptyShape\<lparr>stype := Some ''torus'', radius := Some 2\<rparr>"

definition torusConfig :: config where
  "torusConfig = (meshConfig (Some ''ring'') ''torus'' None)\<lparr>shape := Some torusShape\<rparr>"

definition flatBox :: shape where
  "flatBox = emptyShape\<lparr>stype := Some ''box'', width := Some 0, height := Some 2, depth := Some 3\<rparr>"

definition flatBoxConfig :: config where
  "flatBoxConfig = (meshConfig (Some ''flat'') ''box'' None)\<lparr>shape := Some flatBox\<rparr>"

definition oneBox :: isocard where
  "oneBox = snd (addObject (meshConfig (Some ''a'') ''box'' (Some (Vec3 0 (- 0.5) 0))) physicsReady)"

definition boxMesh :: three_obj where
  "boxMesh = (newObject Mesh)\<lparr>position := Vec3 0 (- 0.5) 0,
      obj_geometry := Some \<lparr>geo_kind = ''box'', geo_dims = [1, 1, 1], geo_disposed = False\<rparr>,
      obj_material := Some \<lparr>mat_kind = ''phong'', transparent = False, opacity = 1, mat_disposed = False\<rparr>,
      ud_layer := Some ''main'', ud_enabled := Some True\<rparr>"

definition dynBox :: isocard where
  "dynBox = snd (convertObjectToDynamic unitBox (Some ''a'') (physicsOf ''dynamic'') oneBox)"

definition runningBox :: isocard where
  "runningBox = snd (startPhysics dynBox)"

definition twoUnnamed :: isocard where
  "twoUnnamed =
    snd (addObject (meshConfig None ''box'' (Some (Vec3 5 0 0)))
          (snd (addObject (meshConfig None ''box'' None) physicsReady)))"

definition ghostConfig :: config where
  "ghostConfig =
    (meshConfig (Some ''ghost'') ''box'' None)
      \<lparr>layer := Some ''fx'',
       material := Some \<lparr>mtype = None, mtransparent = Some True, mopacity = Some 0\<rparr>\<rparr>"

definition fxState :: isocard where
  "fxState = snd (addObjectsToLayer ''fx'' [ghostConfig] initial)"

definition radialScene :: config where
  "radialScene =
    (meshConfig None ''box'' None)
      \<lparr>ctype := Some ''scene'', shape := None,
       gravity := Some \<lparr>gtype = Some ''radial'', gvector = None, gstrength = None\<rparr>\<rparr>"

definition planetConfig :: config where
  "planetConfig =
    (meshConfig (Some ''planet'') ''sphere'' (Some (Vec3 10 0 0)))
      \<lparr>physics := Some ((physicsOf ''static'')\<lparr>gravityStrength_p := Some 500\<rparr>)\<rparr>"

definition planetState :: isocard where
  "planetState =
    snd (addObject (meshConfig (Some ''ball'') ''sphere'' (Some (Vec3 3 4 0)))
          (snd (addObject planetConfig (snd (addObject radialScene physicsReady)))))"

definition orbiting :: isocard where
  "orbiting =
    snd (startPhysics
          (snd (convertObjectToDynamic unitBox (Some ''ball'') (physicsOf ''dynamic'') planetState)))"

definition unitMass :: "body \<Rightarrow> real" where
  "unitMass bd = 1"

definition idleStep :: "real \<Rightarrow> nat \<Rightarrow> (nat \<Rightarrow> body option) \<Rightarrow> (nat \<Rightarrow> body option)" where
  "idleStep dt n bs = bs"

definition running :: isocard where
  "running = snd (startPhysics physicsReady)"

definition noUpdates :: config where
  "noUpdates =
    \<lparr>ctype = None, name = None, layer = None, enabled = None, shape = None, material = None,
     color = None, pos = None, rot = None, euler = None, scale = None, lightType = None,
     helperType = None, physics = None, gravity = None\<rparr>"

definition sparkConfig :: config where
  "sparkConfig = (meshConfig (Some ''spark'') ''box'' None)\<lparr>layer := Some ''fx''\<rparr>"

definition oddConfig :: config where
  "oddConfig = (meshConfig (Some ''odd'') ''box'' None)\<lparr>layer := Some ''constructor''\<rparr>"

section \<open>Properties\<close>

subsection \<open>Auxiliary facts\<close>

lemma jsor_idem: "d \<noteq> 0 \<Longrightarrow> jsor (Some (jsor v d)) d = jsor v d"
  by (cases v) (simp_all add: jsor_def)

lemma sqrt25: "sqrt 25 = 5"
  using real_sqrt_abs [of 5] by simp

text \<open>
  The definitions unfolded to run the model on the examples.
\<close>

lemmas build_defs =
  addObject_def withDefaults_def truthy_def strOr_def ensureLayer_def layerAt_def
  inheritedNames_def jsAnd_def createGeometry_def
  shapeOf_def emptyShape_def mk_geometry_def materialOf_def createMaterialFromObj_def
  phongCfg_def toLowerCase_def materialTypes_def storeObject_def named_def isAttractor_def
  makeMesh_def newObject_def applyPos_def applyRotation_def applyScale_def layerOpacityOn_def
  meshConfig_def physicsReady_def setupJOLT_def initial_def newIsoCard_def fallbackName_def
  jsor_def physicsOf_def

lemmas convert_defs =
  convertObjectToDynamic_def createBody_def motionOf_def layerOf_def LAYER_MOVING_def
  LAYER_NON_MOVING_def attachBody_def releaseBody_def dynamicAfter_def joltShapeOf_def
  getScaledShapeDimensions_def half_def unitBox_def exactJolt_def

lemmas snap_defs =
  startPhysics_def stopPhysics_def saveObjectTransforms_def restoreObjectTransforms_def
  saveOne_def snapOf_def snapshot_def restoreOne_def putTransform_def setRotation_def
  setQuaternion_def bodyUpd_def resetBody_def

lemmas tick_defs =
  animate_def applyRadialGravity_def radialOnBody_def radialForce_def AddForce_def
  heapUpd_def pullTransform_def subSteps_def Sub_def Add_def Mul_def
  LengthSq_def Normalized_def unitMass_def idleStep_def

lemma oneBox_fields:
  "objects oneBox = [\<lparr>eid = Some ''a'', threeObj = 0,
       econfig = (meshConfig (Some ''a'') ''box'' (Some (Vec3 0 (- 0.5) 0)))\<lparr>enabled := Some True, layer := Some ''main''\<rparr>\<rparr>]"
  "heap oneBox = [0 \<mapsto> boxMesh]"
  "scene oneBox = [0]" "jolt oneBox = Some exactJolt" "jInterface oneBox" "bodyInterface oneBox"
  "dynamicObjects oneBox = []" "nextBody oneBox = 0" "bodies oneBox = Map.empty"
  "layers oneBox ''main'' = Some \<lparr>lvisible = True, lopacity = 1\<rparr>" "selectedHelper oneBox = None"
  "THREE oneBox = exactTHREE"
  by (simp_all add: oneBox_def boxMesh_def build_defs Let_def)

lemma dynBox_fields:
  "objects dynBox = [\<lparr>eid = Some ''a'', threeObj = 0,
       econfig = (meshConfig (Some ''a'') ''box'' (Some (Vec3 0 (- 0.5) 0)))\<lparr>enabled := Some True, layer := Some ''main'', physics := Some (physicsOf ''dynamic'')\<rparr>\<rparr>]"
  "heap dynBox = [0 \<mapsto> attachBody 0 (physicsOf ''dynamic'') boxMesh]"
  "jolt dynBox = Some exactJolt" "jInterface dynBox" "bodyInterface dynBox"
  "dynamicObjects dynBox = [0]"
  "bodies dynBox = [0 \<mapsto> createBody exactJolt (BoxShape (Some (1/2)) (Some (1/2)) (Some (1/2))) boxMesh (physicsOf ''dynamic'') (Some ''a'')]"
  "THREE dynBox = exactTHREE"
  by (simp_all add: dynBox_def convertObjectToDynamic_def oneBox_fields Let_def releaseBody_def boxMesh_def newObject_def
       dynamicAfter_def motionOf_def physicsOf_def joltShapeOf_def getScaledShapeDimensions_def half_def meshConfig_def emptyShape_def jsor_def)

lemma runningBox_fields:
  "jInterface runningBox" "isPhysicsRunning runningBox" "jolt runningBox = Some exactJolt"
  "dynamicObjects runningBox = [0]" "stepLog runningBox = []" "simTime runningBox = 0"
  "heap runningBox = [0 \<mapsto> attachBody 0 (physicsOf ''dynamic'') boxMesh]"
  "gravityType runningBox = ''uniform''"
  by (simp_all add: runningBox_def startPhysics_def saveObjectTransforms_def dynBox_fields)
     (simp_all add: dynBox_def convertObjectToDynamic_def oneBox_fields Let_def boxMesh_def
        oneBox_def build_defs)

subsection \<open>Replacing an object\<close>

text \<open>
  Whenever \<^verbatim>\<open>replaceObject\<close> finds the id and returns \<^verbatim>\<open>false\<close>, the registry is the
  old one without the entry, the old object has left the scene and its geometry and
  material are disposed.
\<close>

lemma reinsert_fst: "fst (reinsert i cfg ob front back s) = True"
  by (simp add: reinsert_def Let_def)

lemma replaceObject_failure:
  assumes "findEntry (\<lambda>e. eid e = i) (objects s) = Some (index, old)"
    and "fst (replaceObject i cfg s) = False"
  shows "objects (snd (replaceObject i cfg s)) = take index (objects s) @ drop (Suc index) (objects s)
    \<and> scene (snd (replaceObject i cfg s)) = remove1 (threeObj old) (scene s)
    \<and> heap (snd (replaceObject i cfg s)) = heapUpd (threeObj old) disposeObj (heap s)"
proof -
  let ?temp = "take index (objects s) @ drop (Suc index) (objects s)"
  have A: "fst (replaceObject i cfg s) = True
     \<or> (objects (snd (replaceObject i cfg s)) = take index ?temp @ drop index ?temp
        \<and> scene (snd (replaceObject i cfg s)) = remove1 (threeObj old) (scene s)
        \<and> heap (snd (replaceObject i cfg s)) = heapUpd (threeObj old) disposeObj (heap s))"
    using assms(1)
    by (simp add: replaceObject_def Let_def reinsert_fst split: option.splits)
  have B: "take index ?temp @ drop index ?temp = ?temp"
    by (rule append_take_drop_id)
  from A assms(2) show ?thesis unfolding B by simp
qed

text \<open>
  Claim C1 says that a \<^verbatim>\<open>replaceObject\<close> that fails leaves the registry as it was: the
  entry still present under its id, its render object still in the scene and not
  disposed. The code does otherwise. The registry holds one box \<open>a\<close>; replacing it by a
  mesh of the unsupported shape \<open>blob\<close> returns \<^verbatim>\<open>false\<close>, and afterwards the registry
  is empty, the scene is empty and the geometry of the old box is disposed.
\<close>

theorem replaceObject_failure_drops_entry:
  "map eid (objects oneBox) = [Some ''a''] \<and> scene oneBox = [0]
   \<and> fst (replaceObject (Some ''a'') (meshConfig (Some ''a'') ''blob'' None) oneBox) = False
   \<and> objects (snd (replaceObject (Some ''a'') (meshConfig (Some ''a'') ''blob'' None) oneBox)) = []
   \<and> scene (snd (replaceObject (Some ''a'') (meshConfig (Some ''a'') ''blob'' None) oneBox)) = []
   \<and> map_option obj_geometry
        (heap (snd (replaceObject (Some ''a'') (meshConfig (Some ''a'') ''blob'' None) oneBox)) 0)
       = Some (Some \<lparr>geo_kind = ''box'', geo_dims = [1, 1, 1], geo_disposed = True\<rparr>)"
  by (simp add: replaceObject_def oneBox_fields boxMesh_def heapUpd_def disposeObj_def build_defs Let_def)

subsection \<open>The collision layer of an attached body\<close>

lemma convert_success:
  assumes "convertObjectToDynamic bx i pc s = (True, s')"
  shows "\<exists>index item mesh0 ops.
       findEntry (\<lambda>e. eid e = i) (objects s) = Some (index, item)
     \<and> heap s (threeObj item) = Some mesh0
     \<and> heap s' (threeObj item) = Some (attachBody (nextBody s) pc (releaseBody mesh0))
     \<and> bodies s' (nextBody s)
         = Some (createBody ops (joltShapeOf (getScaledShapeDimensions (econfig item) (releaseBody mesh0))
                               (bx (releaseBody mesh0))) (releaseBody mesh0) pc i)
     \<and> dynamicObjects s'
         = dynamicAfter (motionOf (motionType pc)) (threeObj item) (dynamicObjects s)"
  using assms
  by (auto simp add: convertObjectToDynamic_def Let_def split: option.splits if_splits prod.splits)

lemma motionOf_Dynamic:
  "motionOf m = EMotionType_Dynamic \<longleftrightarrow> m \<noteq> Some ''static'' \<and> m \<noteq> Some ''kinematic''"
  by (simp add: motionOf_def)

text \<open>
  Claim C2, as stated, puts kinematic bodies on the non-moving layer. The code does
  not: a box attached with motion type \<open>kinematic\<close> gets a kinematic body on the moving
  layer.
\<close>

theorem kinematic_layer_counterexample:
  "fst (convertObjectToDynamic unitBox (Some ''a'') (physicsOf ''kinematic'') oneBox) = True
  \<and> map_option b_motion
       (bodies (snd (convertObjectToDynamic unitBox (Some ''a'') (physicsOf ''kinematic'') oneBox)) 0)
      = Some EMotionType_Kinematic
  \<and> map_option b_layer
       (bodies (snd (convertObjectToDynamic unitBox (Some ''a'') (physicsOf ''kinematic'') oneBox)) 0)
      = Some LAYER_MOVING
  \<and> LAYER_MOVING \<noteq> LAYER_NON_MOVING"
  by (simp add: convert_defs oneBox_fields boxMesh_def newObject_def Let_def physicsOf_def)

text \<open>
  Claim C2, amended. After a successful \<^verbatim>\<open>convertObjectToDynamic\<close> the object holds a
  new body whose collision layer is determined by its motion type alone: a static body
  is on the non-moving layer, and every other body (dynamic, kinematic, and the
  dynamic body made for an absent or unknown motion type) is on the moving layer.
\<close>

theorem convertObjectToDynamic_layer:
  assumes "convertObjectToDynamic bx i pc s = (True, s')"
  shows "\<exists>index item ob bd.
       findEntry (\<lambda>e. eid e = i) (objects s) = Some (index, item)
     \<and> heap s' (threeObj item) = Some ob \<and> ud_body ob = Some (nextBody s)
     \<and> bodies s' (nextBody s) = Some bd
     \<and> b_motion bd = motionOf (motionType pc)
     \<and> b_layer bd = layerOf (b_motion bd)
     \<and> b_layer bd = (if motionType pc = Some ''static'' then LAYER_NON_MOVING else LAYER_MOVING)
     \<and> LAYER_NON_MOVING \<noteq> LAYER_MOVING"
proof -
  from convert_success [OF assms] obtain index item mesh0 ops where
    f: "findEntry (\<lambda>e. eid e = i) (objects s) = Some (index, item)"
    and h: "heap s' (threeObj item) = Some (attachBody (nextBody s) pc (releaseBody mesh0))"
    and b: "bodies s' (nextBody s)
         = Some (createBody ops (joltShapeOf (getScaledShapeDimensions (econfig item) (releaseBody mesh0))
                               (bx (releaseBody mesh0))) (releaseBody mesh0) pc i)"
    by blast
  have "ud_body (attachBody (nextBody s) pc (releaseBody mesh0)) = Some (nextBody s)"
    by (simp add: attachBody_def Let_def)
  moreover have "LAYER_NON_MOVING \<noteq> LAYER_MOVING"
    by (simp add: LAYER_NON_MOVING_def LAYER_MOVING_def)
  ultimately show ?thesis using f h b
    by (simp add: createBody_def Let_def layerOf_def motionOf_def)
qed

theorem convertObjectToDynamic_layer_witness:
  "convertObjectToDynamic unitBox (Some ''a'') (physicsOf ''static'') oneBox
     = (True, snd (convertObjectToDynamic unitBox (Some ''a'') (physicsOf ''static'') oneBox))
   \<and> (\<exists>bd. bodies (snd (convertObjectToDynamic unitBox (Some ''a'') (physicsOf ''static'') oneBox)) 0
             = Some bd
          \<and> b_motion bd = EMotionType_Static \<and> b_layer bd = LAYER_NON_MOVING)"
proof -
  have h: "convertObjectToDynamic unitBox (Some ''a'') (physicsOf ''static'') oneBox
     = (True, snd (convertObjectToDynamic unitBox (Some ''a'') (physicsOf ''static'') oneBox))"
    by (simp add: convertObjectToDynamic_def oneBox_fields boxMesh_def newObject_def Let_def)
  from convertObjectToDynamic_layer [OF h] h show ?thesis
    by (auto simp add: oneBox_fields physicsOf_def motionOf_def layerOf_def)
qed

subsection \<open>Membership in the list of dynamic objects\<close>

lemma dynamicAfter_member:
  "distinct dyn \<Longrightarrow> (r \<in> set (dynamicAfter mt r dyn) \<longleftrightarrow> mt = EMotionType_Dynamic)"
  by (simp add: dynamicAfter_def)

lemma dynamicAfter_distinct: "distinct dyn \<Longrightarrow> distinct (dynamicAfter mt r dyn)"
  by (simp add: dynamicAfter_def)

lemma dynamicAfter_others:
  "q \<noteq> r \<Longrightarrow> (q \<in> set (dynamicAfter mt r dyn) \<longleftrightarrow> q \<in> set dyn)"
  by (auto simp add: dynamicAfter_def)

text \<open>
  The constructor starts \<^verbatim>\<open>dynamicObjects\<close> empty; adding and updating objects, the
  layer opacity, starting, stopping and the ticks leave it as it is.
\<close>

lemma ensureLayer_dynamicObjects: "dynamicObjects (ensureLayer l v s) = dynamicObjects s"
  by (simp add: ensureLayer_def split: slot.splits)

lemma dynamicObjects_kept:
  "dynamicObjects (snd (addObject cfg s)) = dynamicObjects s"
  "dynamicObjects (snd (updateObject i u s)) = dynamicObjects s"
  "dynamicObjects (updateLayerOpacity l v s) = dynamicObjects s"
  "dynamicObjects (snd (startPhysics s)) = dynamicObjects s"
  "dynamicObjects (animate gim step dt s) = dynamicObjects s"
  "dynamicObjects (newIsoCard lib) = []"
  by (simp_all add: addObject_def storeObject_def setGravityConfig_def updateObject_def
        updateLayerOpacity_def startPhysics_def saveObjectTransforms_def animate_def
        newIsoCard_def ensureLayer_dynamicObjects
        Let_def split: option.splits slot.splits)

lemma restoreOne_dynamicObjects: "dynamicObjects (snd (restoreOne p u)) = dynamicObjects u"
  by (simp add: restoreOne_def Let_def split: option.splits prod.splits)

lemma restoreAll_dynamicObjects: "dynamicObjects (snd (restoreAll ps u)) = dynamicObjects u"
proof (induction ps arbitrary: u)
  case Nil
  then show ?case by simp
next
  case (Cons p ps)
  show ?case
  proof (cases "restoreOne p u")
    case (Pair r u')
    with restoreOne_dynamicObjects [of p u] have "dynamicObjects u' = dynamicObjects u" by simp
    with Pair Cons.IH [of u'] show ?thesis by (cases r) simp_all
  qed
qed

lemma stopPhysics_dynamicObjects: "dynamicObjects (snd (stopPhysics s)) = dynamicObjects s"
  by (simp add: stopPhysics_def restoreObjectTransforms_def restoreAll_dynamicObjects)

lemma renderSync_dynamicObjects: "dynamicObjects (snd (renderSync step dt s)) = dynamicObjects s"
  by (simp add: renderSync_def updatePhysics_def Let_def split: outcome.splits)

text \<open>
  Claim C7. \<^verbatim>\<open>dynamicObjects\<close> never holds an object twice. After a successful
  \<^verbatim>\<open>convertObjectToDynamic\<close> the object is in \<^verbatim>\<open>dynamicObjects\<close> if and only if the
  motion type applied is dynamic, that is, unless the config says \<open>static\<close> or
  \<open>kinematic\<close>; the list still holds no object twice, and the membership of every
  other object is unchanged.
\<close>

theorem convertObjectToDynamic_dynamicSet:
  assumes "convertObjectToDynamic bx i pc s = (True, s')" and "distinct (dynamicObjects s)"
  shows "\<exists>index item. findEntry (\<lambda>e. eid e = i) (objects s) = Some (index, item)
     \<and> (threeObj item \<in> set (dynamicObjects s')
           \<longleftrightarrow> motionOf (motionType pc) = EMotionType_Dynamic)
     \<and> (threeObj item \<in> set (dynamicObjects s')
           \<longleftrightarrow> motionType pc \<noteq> Some ''static'' \<and> motionType pc \<noteq> Some ''kinematic'')
     \<and> distinct (dynamicObjects s')
     \<and> (\<forall>r. r \<noteq> threeObj item
           \<longrightarrow> (r \<in> set (dynamicObjects s') \<longleftrightarrow> r \<in> set (dynamicObjects s)))"
proof -
  from convert_success [OF assms(1)] obtain index item where
    f: "findEntry (\<lambda>e. eid e = i) (objects s) = Some (index, item)"
    and d: "dynamicObjects s'
         = dynamicAfter (motionOf (motionType pc)) (threeObj item) (dynamicObjects s)"
    by blast
  show ?thesis
    using f d assms(2)
    by (simp add: dynamicAfter_member dynamicAfter_distinct dynamicAfter_others
          motionOf_Dynamic [symmetric])
qed

theorem convertObjectToDynamic_dynamicSet_witness:
  "convertObjectToDynamic unitBox (Some ''a'') (physicsOf ''static'') dynBox
     = (True, snd (convertObjectToDynamic unitBox (Some ''a'') (physicsOf ''static'') dynBox))
   \<and> distinct (dynamicObjects dynBox) \<and> 0 \<in> set (dynamicObjects dynBox)
   \<and> 0 \<notin> set (dynamicObjects
                 (snd (convertObjectToDynamic unitBox (Some ''a'') (physicsOf ''static'') dynBox)))"
proof -
  have h: "convertObjectToDynamic unitBox (Some ''a'') (physicsOf ''static'') dynBox
     = (True, snd (convertObjectToDynamic unitBox (Some ''a'') (physicsOf ''static'') dynBox))"
    by (simp add: convertObjectToDynamic_def dynBox_fields attachBody_def boxMesh_def
          newObject_def Let_def)
  have d: "distinct (dynamicObjects dynBox)" by (simp add: dynBox_fields)
  from convertObjectToDynamic_dynamicSet [OF h d] h d show ?thesis
    by (auto simp add: dynBox_fields physicsOf_def motionOf_def)
qed

subsection \<open>Starting and stopping the simulation\<close>

text \<open>
  With the module of the engine set, the loop of \<^verbatim>\<open>restoreObjectTransforms\<close> runs to
  its end.
\<close>

lemma restoreOne_jolt: "jolt (snd (restoreOne p u)) = jolt u"
  by (simp add: restoreOne_def Let_def split: option.splits prod.splits)

lemma restoreOne_returns: "jolt u \<noteq> None \<Longrightarrow> fst (restoreOne p u) = Returned"
  by (auto simp add: restoreOne_def Let_def split: option.splits prod.splits)

lemma restoreAll_returns: "jolt u \<noteq> None \<Longrightarrow> fst (restoreAll ps u) = Returned"
proof (induction ps arbitrary: u)
  case Nil
  then show ?case by simp
next
  case (Cons p ps)
  show ?case
  proof (cases "restoreOne p u")
    case (Pair r u')
    with restoreOne_returns [OF Cons.prems, of p] restoreOne_jolt [of p u] Cons.prems
    have "r = Returned" and "jolt u' \<noteq> None" by simp_all
    with Pair Cons.IH [of u'] show ?thesis by simp
  qed
qed

lemma restoreObjectTransforms_returns:
  "jolt s \<noteq> None \<Longrightarrow> fst (restoreObjectTransforms s) = Returned"
  by (simp add: restoreObjectTransforms_def restoreAll_returns)

text \<open>
  Claim C3 says that stopping after starting, with no tick in between, puts every
  snapshotted object back where it was. The code does otherwise for objects without a
  name. The id of an object is the name of its config, with no generated id in its
  place, so two meshes added without a name both have the id \<^verbatim>\<open>undefined\<close>. The
  registry holds two such boxes, one at the origin and one at (5, 0, 0).
  \<^verbatim>\<open>startPhysics\<close> stores one snapshot for the two of them, the second written over
  the first, and \<^verbatim>\<open>stopPhysics\<close> moves the first box to (5, 0, 0).
\<close>

theorem unnamed_meshes_restore:
  "map eid (objects twoUnnamed) = [None, None]
   \<and> map_option position (heap twoUnnamed 0) = Some (Vec3 0 0 0)
   \<and> map_option position (heap twoUnnamed 1) = Some (Vec3 5 0 0)
   \<and> fst (startPhysics twoUnnamed) \<and> fst (stopPhysics (snd (startPhysics twoUnnamed)))
   \<and> map fst (savedTransforms (snd (startPhysics twoUnnamed))) = [None]
   \<and> map_option position (heap (snd (stopPhysics (snd (startPhysics twoUnnamed)))) 0)
       = Some (Vec3 5 0 0)"
  by (simp add: twoUnnamed_def build_defs snap_defs Let_def)

subsection \<open>Radial gravity\<close>





text \<open>
  The literal \<^verbatim>\<open>0.0001\<close> of the source is the double nearest to 0.0001, which is
  7378697629483821 / 2^66. No number of the engine lies from 0.0001 up to it, so the
  comparison of such a number with the literal is its comparison with 0.0001.
\<close>

lemma float32_gap:
  assumes f: "float32 x" and lo: "1 / 10000 \<le> x" and hi: "x \<le> 7378697629483821 / 2 ^ 66"
  shows False
proof -
  from f obtain m :: int and n :: nat where
    m: "\<bar>m\<bar> < 2 ^ 24" and c: "x = of_int m * 2 ^ n \<or> x = of_int m / 2 ^ n"
    by (auto simp add: float32_def)
  have pos: "0 < x" using lo by simp
  have small: "x < 1" using hi by simp
  from c show False
  proof
    assume x: "x = of_int m * 2 ^ n"
    from pos x have "0 < (of_int m :: real)" by (simp add: zero_less_mult_iff)
    then have m1: "1 \<le> m" by simp
    then have a: "(1::real) \<le> of_int m" by simp
    have b: "(1::real) \<le> 2 ^ n" by simp
    have "(1::real) * 1 \<le> of_int m * 2 ^ n" using a b m1 by (intro mult_mono) simp_all
    with x small show False by simp
  next
    assume x: "x = of_int m / 2 ^ n"
    show False
    proof (cases "n \<le> 37")
      case True
      define z where "z = m * 2 ^ (37 - n)"
      have p: "(2::real) ^ 37 = 2 ^ n * 2 ^ (37 - n)"
        using True by (simp add: power_add [symmetric])
      have xz: "x * 2 ^ 37 = of_int z" unfolding x z_def p by simp
      have "1 / 10000 * 2 ^ 37 \<le> x * (2::real) ^ 37" using lo by (rule mult_right_mono) simp
      with xz have "(of_int 13743895 :: real) < of_int z" by simp
      then have l: "13743895 < z" by (simp only: of_int_less_iff)
      have "x * 2 ^ 37 \<le> 7378697629483821 / 2 ^ 66 * (2::real) ^ 37"
        using hi by (rule mult_right_mono) simp
      with xz have "of_int z < (of_int 13743896 :: real)" by simp
      then have "z < 13743896" by (simp only: of_int_less_iff)
      with l show False by linarith
    next
      case False
      then have n: "38 \<le> n" by simp
      have p: "(2::real) ^ 38 \<le> 2 ^ n" using n by (intro power_increasing) simp_all
      from m have "(of_int \<bar>m\<bar> :: real) < of_int (2 ^ 24)" by (simp only: of_int_less_iff)
      then have am: "\<bar>of_int m :: real\<bar> < 2 ^ 24" by simp
      have "x * 2 ^ n = of_int m" unfolding x by simp
      then have "x * 2 ^ n < 2 ^ 24" using am by linarith
      moreover have "x * 2 ^ 38 \<le> x * 2 ^ n" using p pos by (simp add: mult_left_mono)
      ultimately have "x * 2 ^ 38 < 2 ^ 24" by linarith
      with lo show False by simp
    qed
  qed
qed

lemma float32_literal:
  assumes "float32 x"
  shows "x > 0.0001 \<longleftrightarrow> x > 7378697629483821 / 2 ^ 66"
proof
  assume g: "x > 0.0001"
  show "x > 7378697629483821 / 2 ^ 66"
  proof (rule ccontr)
    assume "\<not> x > 7378697629483821 / 2 ^ 66"
    then have hi: "x \<le> 7378697629483821 / 2 ^ 66" by (simp only: not_less)
    have lo: "1 / 10000 \<le> x" using g by simp
    from assms lo hi show False by (rule float32_gap)
  qed
next
  assume g: "x > 7378697629483821 / 2 ^ 66"
  have "(0.0001::real) < 7378697629483821 / 2 ^ 66" by simp
  with g show "x > 0.0001" by linarith
qed














subsection \<open>The time step of a tick\<close>

lemma pullTransform_ud_body: "ud_body (pullTransform lib bs ob) = ud_body ob"
  by (simp add: pullTransform_def setQuaternion_def split: option.splits)

lemma syncLoop_returns:
  "\<forall>r\<in>set rs. \<forall>ob. h r = Some ob \<longrightarrow> ud_body ob \<noteq> None
    \<Longrightarrow> fst (syncLoop lib True bs rs h) = Returned"
proof (induction rs arbitrary: h)
  case Nil
  then show ?case by simp
next
  case (Cons r rs)
  show ?case
  proof (cases "h r")
    case None
    with Cons show ?thesis by simp
  next
    case (Some ob)
    with Cons.prems obtain b where b: "ud_body ob = Some b" by auto
    let ?h1 = "h(r \<mapsto> pullTransform lib bs ob)"
    have inv: "\<forall>r'\<in>set rs. \<forall>ob'. ?h1 r' = Some ob' \<longrightarrow> ud_body ob' \<noteq> None"
      using Cons.prems b by (auto simp add: pullTransform_ud_body)
    have step: "syncLoop lib True bs (r # rs) h = syncLoop lib True bs rs ?h1"
      using Some b by (simp add: Let_def)
    show ?thesis unfolding step using inv by (rule Cons.IH)
  qed
qed

text \<open>
  Claim C5. On a tick while the simulation runs, \<^verbatim>\<open>animate\<close> steps the engine once,
  with the elapsed time clamped to at most 1/30 s and with 2 sub-steps when the
  clamped time exceeds 1/55 s and 1 otherwise, and the simulation time advances by
  the clamped time; when the simulation does not run it does nothing.
  \<^verbatim>\<open>updatePhysics\<close> steps the engine with the time it is given, with 2 sub-steps when
  that time exceeds 1/55 s and 1 otherwise. \<^verbatim>\<open>renderSync\<close>, when every dynamic
  object has a body, clamps the elapsed time in the same way, advances the
  simulation time by the clamped time and steps the engine through
  \<^verbatim>\<open>updatePhysics\<close> with it. Elapsed times of 0.01 s and 0.05 s give 1 and 2
  sub-steps.
\<close>

theorem tick_time_step:
  "(jInterface s \<and> isPhysicsRunning s \<and> jolt s = Some ops \<longrightarrow>
      stepLog (animate gim step elapsed s) =
        (min elapsed (1 / 30), if min elapsed (1 / 30) > 1 / 55 then 2 else 1) # stepLog s
      \<and> bodies (animate gim step elapsed s) =
          step (min elapsed (1 / 30)) (subSteps (min elapsed (1 / 30)))
            (if gravityType s = ''radial'' then applyRadialGravity ops gim s else bodies s)
      \<and> simTime (animate gim step elapsed s) = simTime s + min elapsed (1 / 30))
   \<and> (\<not> (jInterface s \<and> isPhysicsRunning s) \<longrightarrow> animate gim step elapsed s = s)
   \<and> (jInterface s \<longrightarrow>
        (\<exists>s'. updatePhysics step dt s = Some s'
           \<and> stepLog s' = (dt, if dt > 1 / 55 then 2 else 1) # stepLog s
           \<and> bodies s' = step dt (if dt > 1 / 55 then 2 else 1) (bodies s)))
   \<and> (jInterface s \<and> jolt s \<noteq> None
        \<and> (\<forall>r\<in>set (dynamicObjects s). \<forall>ob. heap s r = Some ob \<longrightarrow> ud_body ob \<noteq> None) \<longrightarrow>
        fst (renderSync step elapsed s) = Returned
        \<and> stepLog (snd (renderSync step elapsed s)) =
            (min elapsed (1 / 30), if min elapsed (1 / 30) > 1 / 55 then 2 else 1) # stepLog s
        \<and> bodies (snd (renderSync step elapsed s)) =
            step (min elapsed (1 / 30)) (subSteps (min elapsed (1 / 30))) (bodies s)
        \<and> simTime (snd (renderSync step elapsed s)) = simTime s + min elapsed (1 / 30))
   \<and> min elapsed (1 / 30) \<le> 1 / 30
   \<and> subSteps (min 0.01 (1 / 30)) = 1 \<and> subSteps (min 0.05 (1 / 30)) = 2"
proof -
  have A: "jInterface s \<and> isPhysicsRunning s \<and> jolt s = Some ops \<longrightarrow>
      stepLog (animate gim step elapsed s) =
        (min elapsed (1 / 30), if min elapsed (1 / 30) > 1 / 55 then 2 else 1) # stepLog s
      \<and> bodies (animate gim step elapsed s) =
          step (min elapsed (1 / 30)) (subSteps (min elapsed (1 / 30)))
            (if gravityType s = ''radial'' then applyRadialGravity ops gim s else bodies s)
      \<and> simTime (animate gim step elapsed s) = simTime s + min elapsed (1 / 30)"
    by (auto simp add: animate_def Let_def subSteps_def min_def)
  have B: "\<not> (jInterface s \<and> isPhysicsRunning s) \<longrightarrow> animate gim step elapsed s = s"
    by (simp add: animate_def)
  have C: "jInterface s \<longrightarrow>
        (\<exists>s'. updatePhysics step dt s = Some s'
           \<and> stepLog s' = (dt, if dt > 1 / 55 then 2 else 1) # stepLog s
           \<and> bodies s' = step dt (if dt > 1 / 55 then 2 else 1) (bodies s))"
    by (simp add: updatePhysics_def subSteps_def)
  have D: "jInterface s \<and> jolt s \<noteq> None
        \<and> (\<forall>r\<in>set (dynamicObjects s). \<forall>ob. heap s r = Some ob \<longrightarrow> ud_body ob \<noteq> None) \<longrightarrow>
        fst (renderSync step elapsed s) = Returned
        \<and> stepLog (snd (renderSync step elapsed s)) =
            (min elapsed (1 / 30), if min elapsed (1 / 30) > 1 / 55 then 2 else 1) # stepLog s
        \<and> bodies (snd (renderSync step elapsed s)) =
            step (min elapsed (1 / 30)) (subSteps (min elapsed (1 / 30))) (bodies s)
        \<and> simTime (snd (renderSync step elapsed s)) = simTime s + min elapsed (1 / 30)"
  proof
    assume h: "jInterface s \<and> jolt s \<noteq> None
        \<and> (\<forall>r\<in>set (dynamicObjects s). \<forall>ob. heap s r = Some ob \<longrightarrow> ud_body ob \<noteq> None)"
    then have all: "\<forall>r\<in>set (dynamicObjects s). \<forall>ob. heap s r = Some ob \<longrightarrow> ud_body ob \<noteq> None"
      by simp
    have "fst (syncLoop (THREE s) True (bodies s) (dynamicObjects s) (heap s)) = Returned"
      using all by (rule syncLoop_returns)
    with h show "fst (renderSync step elapsed s) = Returned
        \<and> stepLog (snd (renderSync step elapsed s)) =
            (min elapsed (1 / 30), if min elapsed (1 / 30) > 1 / 55 then 2 else 1) # stepLog s
        \<and> bodies (snd (renderSync step elapsed s)) =
            step (min elapsed (1 / 30)) (subSteps (min elapsed (1 / 30))) (bodies s)
        \<and> simTime (snd (renderSync step elapsed s)) = simTime s + min elapsed (1 / 30)"
      by (auto simp add: renderSync_def Let_def updatePhysics_def subSteps_def min_def)
  qed
  have E: "min elapsed (1 / 30) \<le> 1 / 30" by simp
  have F: "subSteps (min 0.01 (1 / 30)) = 1" "subSteps (min 0.05 (1 / 30)) = 2"
    by (simp_all add: subSteps_def)
  from A B C D E F show ?thesis by (intro conjI)
qed

theorem tick_time_step_witness:
  "jInterface runningBox \<and> isPhysicsRunning runningBox \<and> jolt runningBox = Some exactJolt
   \<and> dynamicObjects runningBox = [0]
   \<and> map_option ud_body (heap runningBox 0) = Some (Some 0)
   \<and> stepLog (animate unitMass idleStep 0.05 runningBox) = [(1 / 30, 2)]
   \<and> stepLog (animate unitMass idleStep 0.01 runningBox) = [(0.01, 1)]
   \<and> map_option stepLog (updatePhysics idleStep 0.05 runningBox) = Some [(0.05, 2)]
   \<and> fst (renderSync idleStep 0.05 runningBox) = Returned
   \<and> stepLog (snd (renderSync idleStep 0.05 runningBox)) = [(1 / 30, 2)]
   \<and> simTime (snd (renderSync idleStep 0.05 runningBox)) = 1 / 30"
proof -
  have run: "jInterface runningBox \<and> isPhysicsRunning runningBox \<and> jolt runningBox = Some exactJolt"
    by (simp add: runningBox_fields)
  have ji: "jInterface runningBox" by (simp add: runningBox_fields)
  have ub: "map_option ud_body (heap runningBox 0) = Some (Some 0)"
    by (simp add: runningBox_fields attachBody_def Let_def)
  have sync: "jInterface runningBox \<and> jolt runningBox \<noteq> None
        \<and> (\<forall>r\<in>set (dynamicObjects runningBox). \<forall>ob. heap runningBox r = Some ob
               \<longrightarrow> ud_body ob \<noteq> None)"
    by (simp add: runningBox_fields attachBody_def Let_def)
  note T5 = tick_time_step [of runningBox exactJolt unitMass idleStep "0.05" "0.05"]
  note T1 = tick_time_step [of runningBox exactJolt unitMass idleStep "0.01" "0.05"]
  have a5: "stepLog (animate unitMass idleStep 0.05 runningBox) = [(1 / 30, 2)]"
    using T5 [THEN conjunct1, THEN mp, OF run] by (simp add: runningBox_fields)
  have a1: "stepLog (animate unitMass idleStep 0.01 runningBox) = [(0.01, 1)]"
    using T1 [THEN conjunct1, THEN mp, OF run] by (simp add: runningBox_fields)
  have u: "map_option stepLog (updatePhysics idleStep 0.05 runningBox) = Some [(0.05, 2)]"
    using T5 [THEN conjunct2, THEN conjunct2, THEN conjunct1, THEN mp, OF ji]
    by (auto simp add: runningBox_fields)
  have r: "fst (renderSync idleStep 0.05 runningBox) = Returned
      \<and> stepLog (snd (renderSync idleStep 0.05 runningBox)) = [(1 / 30, 2)]
      \<and> simTime (snd (renderSync idleStep 0.05 runningBox)) = 1 / 30"
    using T5 [THEN conjunct2, THEN conjunct2, THEN conjunct2, THEN conjunct1, THEN mp, OF sync]
    by (simp add: runningBox_fields)
  from run ub a5 a1 u r show ?thesis by (simp add: runningBox_fields)
qed

subsection \<open>The shape scaler at unit scale\<close>

text \<open>
  Claim C6, as stated, returns the dimensions of the shape unchanged. The code does
  not when a dimension is 0: the scaler reads it with \<^verbatim>\<open>|| 1\<close>, so a box of width 0
  comes back with width 1.
\<close>

theorem zero_width_counterexample:
  "shape flatBoxConfig = Some flatBox \<and> stype flatBox = Some ''box''
   \<and> ''box'' \<in> set recognized \<and> obj_scale (newObject Mesh) = Vec3 1 1 1
   \<and> width flatBox = Some 0
   \<and> map_option width (getScaledShapeDimensions flatBoxConfig (newObject Mesh)) = Some (Some 1)"
  by (simp add: flatBoxConfig_def flatBox_def emptyShape_def recognized_def newObject_def
        getScaledShapeDimensions_def meshConfig_def jsor_def)

text \<open>
  Claim C6, amended. For a shape descriptor of a recognised type (box, sphere, plane,
  cylinder, cone, torus), the scaled shape of a mesh whose scale is (1, 1, 1) has the
  type of the original, and every dimension that the descriptor gives with a value
  other than 0 is returned as it is. A dimension of the type that is absent or 0 is
  returned as the default that the geometry is built with (1, and 0.4 for the tube of
  a torus): each dimension of the type is returned as the source reads it, the
  property or its default. The geometry built from the scaled descriptor is the
  geometry built from the original one.
\<close>

theorem getScaledShapeDimensions_unit_scale:
  assumes "shape cfg = Some sh"
    and "stype sh = Some t"
    and "t \<in> set recognized"
    and "obj_scale mesh = Vec3 1 1 1"
  shows "\<exists>sh'. getScaledShapeDimensions cfg mesh = Some sh'
      \<and> stype sh' = stype sh
      \<and> jsor (width sh') 1 = jsor (width sh) 1
      \<and> jsor (height sh') 1 = jsor (height sh) 1
      \<and> jsor (depth sh') 1 = jsor (depth sh) 1
      \<and> jsor (radius sh') 1 = jsor (radius sh) 1
      \<and> jsor (radiusTop sh') 1 = jsor (radiusTop sh) 1
      \<and> jsor (radiusBottom sh') 1 = jsor (radiusBottom sh) 1
      \<and> jsor (tube sh') 0.4 = jsor (tube sh) 0.4
      \<and> (width sh \<noteq> None \<and> width sh \<noteq> Some 0 \<longrightarrow> width sh' = width sh)
      \<and> (height sh \<noteq> None \<and> height sh \<noteq> Some 0 \<longrightarrow> height sh' = height sh)
      \<and> (depth sh \<noteq> None \<and> depth sh \<noteq> Some 0 \<longrightarrow> depth sh' = depth sh)
      \<and> (radius sh \<noteq> None \<and> radius sh \<noteq> Some 0 \<longrightarrow> radius sh' = radius sh)
      \<and> (radiusTop sh \<noteq> None \<and> radiusTop sh \<noteq> Some 0 \<longrightarrow> radiusTop sh' = radiusTop sh)
      \<and> (radiusBottom sh \<noteq> None \<and> radiusBottom sh \<noteq> Some 0
            \<longrightarrow> radiusBottom sh' = radiusBottom sh)
      \<and> (tube sh \<noteq> None \<and> tube sh \<noteq> Some 0 \<longrightarrow> tube sh' = tube sh)
      \<and> innerRadius sh' = innerRadius sh \<and> outerRadius sh' = outerRadius sh
      \<and> createGeometry sh' = createGeometry sh
      \<and> (t = ''box'' \<longrightarrow> width sh' = Some (jsor (width sh) 1)
             \<and> height sh' = Some (jsor (height sh) 1) \<and> depth sh' = Some (jsor (depth sh) 1))
      \<and> (t = ''sphere'' \<longrightarrow> radius sh' = Some (jsor (radius sh) 1))
      \<and> (t = ''plane'' \<longrightarrow> width sh' = Some (jsor (width sh) 1)
             \<and> height sh' = Some (jsor (height sh) 1))
      \<and> (t = ''cylinder'' \<longrightarrow> radiusTop sh' = Some (jsor (radiusTop sh) 1)
             \<and> radiusBottom sh' = Some (jsor (radiusBottom sh) 1)
             \<and> height sh' = Some (jsor (height sh) 1))
      \<and> (t = ''cone'' \<longrightarrow> radius sh' = Some (jsor (radius sh) 1)
             \<and> height sh' = Some (jsor (height sh) 1))
      \<and> (t = ''torus'' \<longrightarrow> radius sh' = Some (jsor (radius sh) 1)
             \<and> tube sh' = Some (jsor (tube sh) 0.4))"
proof -
  have keep: "a \<noteq> None \<Longrightarrow> a \<noteq> Some 0 \<Longrightarrow> Some (jsor a d) = a" for a d
    by (cases a) (simp_all add: jsor_def)
  show ?thesis
    using assms
    by (auto simp add: getScaledShapeDimensions_def createGeometry_def recognized_def
        max3_def jsor_idem mk_geometry_def keep)
qed

theorem getScaledShapeDimensions_unit_scale_witness:
  "shape torusConfig = Some torusShape \<and> stype torusShape = Some ''torus''
    \<and> ''torus'' \<in> set recognized \<and> obj_scale (newObject Mesh) = Vec3 1 1 1
    \<and> (\<exists>sh'. getScaledShapeDimensions torusConfig (newObject Mesh) = Some sh'
          \<and> jsor (radius sh') 1 = 2 \<and> jsor (tube sh') 0.4 = 0.4 \<and> radius sh' = Some 2
          \<and> tube sh' = Some 0.4
          \<and> createGeometry sh' = createGeometry torusShape)"
proof -
  have a: "shape torusConfig = Some torusShape" by (simp add: torusConfig_def)
  have b: "stype torusShape = Some ''torus''" by (simp add: torusShape_def)
  have c: "''torus'' \<in> set recognized" by (simp add: recognized_def)
  have d: "obj_scale (newObject Mesh) = Vec3 1 1 1" by (simp add: newObject_def)
  have e: "jsor (radius torusShape) 1 = 2" "jsor (tube torusShape) 0.4 = 0.4"
    "radius torusShape = Some 2"
    by (simp_all add: torusShape_def emptyShape_def jsor_def)
  from getScaledShapeDimensions_unit_scale [OF a b c d] show ?thesis
  proof (elim exE conjE)
    fix sh'
    assume s: "getScaledShapeDimensions torusConfig (newObject Mesh) = Some sh'"
      and r: "jsor (radius sh') 1 = jsor (radius torusShape) 1"
      and t: "jsor (tube sh') 0.4 = jsor (tube torusShape) 0.4"
      and k: "radius torusShape \<noteq> None \<and> radius torusShape \<noteq> Some 0
                \<longrightarrow> radius sh' = radius torusShape"
      and g: "createGeometry sh' = createGeometry torusShape"
      and u: "''torus'' = ''torus'' \<longrightarrow> radius sh' = Some (jsor (radius torusShape) 1)
               \<and> tube sh' = Some (jsor (tube torusShape) 0.4)"
    from k e have "radius sh' = Some 2" by simp
    moreover from u e have "tube sh' = Some 0.4" by simp
    ultimately show ?thesis using s r t g e a b c d by simp
  qed
qed

subsection \<open>Layer opacity\<close>

text \<open>
  What \<^verbatim>\<open>updateLayerOpacity\<close> writes to the material of a mesh of the layer: the base
  opacity of the config times the layer opacity, not the opacity that the material had.
\<close>

lemma opacityOnMesh_material:
  assumes "kind ob = Mesh" and "obj_material ob = Some m"
  shows "obj_material (opacityOnMesh op cfg ob) =
     Some (if op < 1 then m\<lparr>transparent := True, opacity := baseOpacity cfg * op\<rparr>
           else m\<lparr>opacity := baseOpacity cfg,
                  transparent := (if baseOpacity cfg = 1 then False else transparent m)\<rparr>)"
  using assms by (simp add: opacityOnMesh_def Let_def)

text \<open>
  Claim C8 says that the opacity of a mesh becomes the base opacity of its config times
  the layer opacity. The code reads the base opacity with \<^verbatim>\<open>|| 1\<close>, which takes a base
  opacity of 0 for absent, while \<^verbatim>\<open>createMaterialFromObj\<close> keeps 0. The mesh \<open>ghost\<close> of
  layer \<open>fx\<close> has base opacity 0 and is created with opacity 0; setting the layer
  opacity to 0.5 gives its material the opacity 0.5 and not 0.
\<close>

theorem updateLayerOpacity_zero_base:
  "map (\<lambda>e. map_option mopacity (material (econfig e))) (objects fxState) = [Some (Some 0)]
   \<and> map (\<lambda>e. layer (econfig e)) (objects fxState) = [Some ''fx'']
   \<and> map_option obj_material (heap fxState 0)
       = Some (Some \<lparr>mat_kind = ''phong'', transparent = True, opacity = 0, mat_disposed = False\<rparr>)
   \<and> map_option obj_material (heap (updateLayerOpacity ''fx'' 0.5 fxState) 0)
       = Some (Some \<lparr>mat_kind = ''phong'', transparent = True, opacity = 0.5, mat_disposed = False\<rparr>)"
  by (simp add: fxState_def addObjectsToLayer_def ghostConfig_def build_defs updateLayerOpacity_def
        heapUpd_def opacityOnMesh_def baseOpacity_def Let_def)

subsection \<open>The centre of radial gravity\<close>

text \<open>
  No call of \<^verbatim>\<open>addObject\<close> changes \<^verbatim>\<open>gravityCenter\<close>.
\<close>

lemma storeObject_gravityCenter: "gravityCenter (snd (storeObject cfg ob s)) = gravityCenter s"
  by (simp add: storeObject_def Let_def)

lemma setGravityConfig_gravityCenter: "gravityCenter (setGravityConfig g s) = gravityCenter s"
  by (simp add: setGravityConfig_def Let_def)

lemma ensureLayer_gravityCenter: "gravityCenter (ensureLayer l v s) = gravityCenter s"
  by (simp add: ensureLayer_def split: slot.splits)

lemma addObject_gravityCenter: "gravityCenter (snd (addObject cfg s)) = gravityCenter s"
  by (simp add: addObject_def Let_def storeObject_gravityCenter setGravityConfig_gravityCenter
      ensureLayer_gravityCenter split: option.splits slot.splits)

text \<open>
  Claim C9 says that the position of a static sphere added with an attraction strength
  becomes the centre of radial gravity. The code records the sphere in
  \<^verbatim>\<open>attractors\<close>, which the tick never reads, and leaves \<^verbatim>\<open>gravityCenter\<close> at the
  origin. With a planet at (10, 0, 0) and a dynamic ball of mass 1 at (3, 4, 0), the
  tick adds to the ball the force (-24, -32, 0), which points to the origin and away
  from the planet in x.
\<close>

theorem attractor_position_unused:
  "gravityType orbiting = ''radial''
   \<and> attractors orbiting = [(Vec3 10 0 0, 500)]
   \<and> gravityCenter orbiting = Vec3 0 0 0
   \<and> dynamicObjects orbiting = [1]
   \<and> map_option b_position (bodies orbiting 0) = Some (Vec3 3 4 0)
   \<and> map_option b_force (bodies (animate unitMass idleStep 0.01 orbiting) 0)
       = Some (Vec3 (- 24) (- 32) 0)"
  by (simp add: orbiting_def planetState_def planetConfig_def radialScene_def build_defs
        setGravityConfig_def mergeGravity_def convert_defs snap_defs tick_defs Let_def sqrt25)

subsection \<open>The opacity of a layer made on demand\<close>

text \<open>
  After the test of the layer the lookup finds a value.
\<close>

lemma layerAt_ensureLayer: "layerAt (ensureLayer l v s) l \<noteq> Absent"
  by (simp add: ensureLayer_def layerAt_def split: slot.splits option.splits if_splits)

text \<open>
  For a name under which the lookup finds nothing, the layer is made on demand:
  \<^verbatim>\<open>addObject\<close> makes the layer visible with opacity 0.5, and a mesh added by
  that call has a transparent material whose opacity is the opacity of the created
  material times 0.5; \<^verbatim>\<open>updateObject\<close> with such a layer makes it with opacity 0.5
  too; \<^verbatim>\<open>addObjectsToLayer\<close> makes it with opacity 1, and it still has opacity 1
  after the configs are added.
\<close>

lemma storeObject_layers: "layers (snd (storeObject cfg ob s)) = layers s"
  by (simp add: storeObject_def Let_def)

lemma setGravityConfig_layers: "layers (setGravityConfig g s) = layers s"
  by (simp add: setGravityConfig_def Let_def)

lemma withDefaults_layer: "strOr (layer (withDefaults cfg)) ''main'' = strOr (layer cfg) ''main''"
  by (simp add: withDefaults_def Let_def strOr_def truthy_def split: option.splits)

lemma withDefaults_same:
  "ctype (withDefaults cfg) = ctype cfg" "shapeOf (withDefaults cfg) = shapeOf cfg"
  "materialOf (withDefaults cfg) = materialOf cfg" "name (withDefaults cfg) = name cfg"
  by (simp_all add: withDefaults_def Let_def shapeOf_def materialOf_def)

lemma layerAt_Absent: "layerAt s l = Absent \<longleftrightarrow> layers s l = None \<and> l \<notin> set inheritedNames"
  by (simp add: layerAt_def split: option.splits)

lemma ensureLayer_fresh:
  "layerAt s l = Absent \<Longrightarrow> layers (ensureLayer l v s) l = Some \<lparr>lvisible = True, lopacity = v\<rparr>"
  by (simp add: ensureLayer_def)

lemma layerAt_ensureLayer_fresh:
  "layerAt s l = Absent \<Longrightarrow> layerAt (ensureLayer l v s) l = Found (Some True) (Some v)"
  by (simp add: ensureLayer_def layerAt_def)

lemma ensureLayer_present: "layers s l = Some li \<Longrightarrow> layers (ensureLayer k v s) l = Some li"
  by (auto simp add: ensureLayer_def layerAt_def split: slot.splits option.splits if_splits)

lemma ensureLayer_objects:
  "layers (ensureLayer l v (s\<lparr>objects := x\<rparr>)) = layers (ensureLayer l v s)"
  by (simp add: ensureLayer_def layerAt_def split: option.splits)

lemma addObject_layers:
  "layers (snd (addObject cfg s)) = layers (ensureLayer (strOr (layer cfg) ''main'') 0.5 s)"
  by (simp add: addObject_def Let_def withDefaults_layer storeObject_layers
        setGravityConfig_layers split: option.splits slot.splits)

lemma fold_addObject_layer:
  "layers s l = Some li
    \<Longrightarrow> layers (fold (\<lambda>c s. snd (addObject (c\<lparr>layer := Some k\<rparr>) s)) cfgs s) l = Some li"
  by (induction cfgs arbitrary: s) (simp_all add: addObject_layers ensureLayer_present)

lemma addObject_fresh_mesh:
  assumes "layerAt s (strOr (layer cfg) ''main'') = Absent"
    and "ctype cfg = Some ''mesh'' \<or> \<not> truthy (ctype cfg)"
    and "createGeometry (shapeOf cfg) = Some g"
    and "createMaterialFromObj (materialOf cfg) = Some m"
  shows "fst (addObject cfg s) = Some (name cfg)
    \<and> (\<exists>ob. heap (snd (addObject cfg s)) (nextRef s) = Some ob \<and> kind ob = Mesh
          \<and> obj_material ob = Some (m\<lparr>transparent := True, opacity := opacity m * 0.5\<rparr>))"
proof -
  let ?c = "withDefaults cfg"
  let ?l = "strOr (layer cfg) ''main''"
  have t: "ctype ?c \<noteq> Some ''scene''" "ctype ?c \<noteq> Some ''light''" "ctype ?c \<noteq> Some ''helper''"
    "ctype ?c = Some ''mesh'' \<or> \<not> truthy (ctype ?c)"
    using assms(2) by (auto simp add: withDefaults_same truthy_def)
  have li: "layerAt (ensureLayer ?l 0.5 s) ?l = Found (Some True) (Some 0.5)"
    using assms(1) by (rule layerAt_ensureLayer_fresh)
  have n: "nextRef (ensureLayer ?l 0.5 s) = nextRef s" "heap (ensureLayer ?l 0.5 s) = heap s"
    by (simp_all add: ensureLayer_def split: slot.splits)
  have k: "kind (makeMesh lib ?c g m' v) = Mesh"
    "obj_material (makeMesh lib ?c g m' v) = Some m'" for m' v lib
    by (simp_all add: makeMesh_def applyScale_def applyRotation_def applyPos_def newObject_def
          setRotation_def setQuaternion_def split: option.splits rot_cfg.splits)
  show ?thesis
    using t li assms(3,4) n
    by (simp add: addObject_def Let_def withDefaults_layer withDefaults_same storeObject_def k
          layerOpacityOn_def split: option.splits)
qed

lemma updateObject_layers:
  assumes "findEntry (\<lambda>e. eid e = i) (objects s) = Some (n, item)"
    and "heap s (threeObj item) \<noteq> None"
  shows "layers (snd (updateObject i u s)) =
      (case layer u of None \<Rightarrow> layers s | Some l \<Rightarrow> layers (ensureLayer l 0.5 s))"
  using assms by (auto simp add: updateObject_def Let_def ensureLayer_objects split: option.splits)

lemma fresh_layer_opacity:
  "(layerAt s l = Absent \<longleftrightarrow> layers s l = None \<and> l \<notin> set inheritedNames)
   \<and> (layerAt s (strOr (layer cfg) ''main'') = Absent \<longrightarrow>
      layers (snd (addObject cfg s)) (strOr (layer cfg) ''main'')
        = Some \<lparr>lvisible = True, lopacity = 0.5\<rparr>)
   \<and> (layerAt s (strOr (layer cfg) ''main'') = Absent
        \<and> (ctype cfg = Some ''mesh'' \<or> \<not> truthy (ctype cfg))
        \<and> createGeometry (shapeOf cfg) = Some g
        \<and> createMaterialFromObj (materialOf cfg) = Some m \<longrightarrow>
      fst (addObject cfg s) = Some (name cfg)
      \<and> (\<exists>ob. heap (snd (addObject cfg s)) (nextRef s) = Some ob \<and> kind ob = Mesh
            \<and> obj_material ob = Some (m\<lparr>transparent := True, opacity := opacity m * 0.5\<rparr>)))
   \<and> (findEntry (\<lambda>e. eid e = i) (objects s) = Some (n, item)
        \<and> heap s (threeObj item) \<noteq> None \<and> layer u = Some l \<and> layerAt s l = Absent \<longrightarrow>
      layers (snd (updateObject i u s)) l = Some \<lparr>lvisible = True, lopacity = 0.5\<rparr>)
   \<and> (layerAt s l = Absent \<longrightarrow>
      layers (snd (addObjectsToLayer l cfgs s)) l = Some \<lparr>lvisible = True, lopacity = 1\<rparr>)"
proof (intro conjI impI)
  show "layerAt s l = Absent \<longleftrightarrow> layers s l = None \<and> l \<notin> set inheritedNames"
    by (rule layerAt_Absent)
next
  assume "layerAt s (strOr (layer cfg) ''main'') = Absent"
  then show "layers (snd (addObject cfg s)) (strOr (layer cfg) ''main'')
        = Some \<lparr>lvisible = True, lopacity = 0.5\<rparr>"
    by (simp add: addObject_layers ensureLayer_fresh)
next
  assume a: "layerAt s (strOr (layer cfg) ''main'') = Absent
        \<and> (ctype cfg = Some ''mesh'' \<or> \<not> truthy (ctype cfg))
        \<and> createGeometry (shapeOf cfg) = Some g
        \<and> createMaterialFromObj (materialOf cfg) = Some m"
  then show "fst (addObject cfg s) = Some (name cfg)"
    using addObject_fresh_mesh [of s cfg g m] by blast
  from a show "\<exists>ob. heap (snd (addObject cfg s)) (nextRef s) = Some ob \<and> kind ob = Mesh
            \<and> obj_material ob = Some (m\<lparr>transparent := True, opacity := opacity m * 0.5\<rparr>)"
    using addObject_fresh_mesh [of s cfg g m] by blast
next
  assume "findEntry (\<lambda>e. eid e = i) (objects s) = Some (n, item)
        \<and> heap s (threeObj item) \<noteq> None \<and> layer u = Some l \<and> layerAt s l = Absent"
  then show "layers (snd (updateObject i u s)) l = Some \<lparr>lvisible = True, lopacity = 0.5\<rparr>"
    using updateObject_layers [of i s n item u] by (simp add: ensureLayer_fresh)
next
  assume "layerAt s l = Absent"
  then have "layers (ensureLayer l 1 s) l = Some \<lparr>lvisible = True, lopacity = 1\<rparr>"
    by (rule ensureLayer_fresh)
  then show "layers (snd (addObjectsToLayer l cfgs s)) l = Some \<lparr>lvisible = True, lopacity = 1\<rparr>"
    unfolding addObjectsToLayer_def snd_conv by (rule fold_addObject_layer)
qed

lemma fresh_layer_opacity_example:
  "layerAt initial ''fx'' = Absent \<and> layerAt oneBox ''fx'' = Absent
   \<and> layers (snd (addObject sparkConfig initial)) ''fx'' = Some \<lparr>lvisible = True, lopacity = 0.5\<rparr>
   \<and> map_option obj_material (heap (snd (addObject sparkConfig initial)) 0)
       = Some (Some \<lparr>mat_kind = ''phong'', transparent = True, opacity = 0.5, mat_disposed = False\<rparr>)
   \<and> layers (snd (updateObject (Some ''a'') (noUpdates\<lparr>layer := Some ''fx''\<rparr>) oneBox)) ''fx''
       = Some \<lparr>lvisible = True, lopacity = 0.5\<rparr>
   \<and> layers (snd (addObjectsToLayer ''fx'' [sparkConfig] initial)) ''fx''
       = Some \<lparr>lvisible = True, lopacity = 1\<rparr>"
proof -
  have a: "layerAt initial ''fx'' = Absent"
    by (simp add: initial_def newIsoCard_def layerAt_def inheritedNames_def)
  have l: "strOr (layer sparkConfig) ''main'' = ''fx''" "layer (noUpdates\<lparr>layer := Some ''fx''\<rparr>) = Some ''fx''"
    by (simp_all add: sparkConfig_def strOr_def)
  have b: "ctype sparkConfig = Some ''mesh''" by (simp add: sparkConfig_def meshConfig_def)
  have c: "createGeometry (shapeOf sparkConfig)
      = Some \<lparr>geo_kind = ''box'', geo_dims = [1, 1, 1], geo_disposed = False\<rparr>"
    by (simp add: sparkConfig_def build_defs)
  have d: "createMaterialFromObj (materialOf sparkConfig)
      = Some \<lparr>mat_kind = ''phong'', transparent = False, opacity = 1, mat_disposed = False\<rparr>"
    by (simp add: sparkConfig_def build_defs)
  have e: "findEntry (\<lambda>e. eid e = Some ''a'') (objects oneBox) = Some (0, hd (objects oneBox))"
    "heap oneBox (threeObj (hd (objects oneBox))) \<noteq> None" "layerAt oneBox ''fx'' = Absent"
    "nextRef initial = 0"
    by (simp_all add: oneBox_fields) (simp_all add: oneBox_def build_defs Let_def)
  note T = fresh_layer_opacity [of initial "''fx''" sparkConfig
      "\<lparr>geo_kind = ''box'', geo_dims = [1, 1, 1], geo_disposed = False\<rparr>"
      "\<lparr>mat_kind = ''phong'', transparent = False, opacity = 1, mat_disposed = False\<rparr>"
      "Some ''a''" "0" "hd (objects oneBox)" "noUpdates\<lparr>layer := Some ''fx''\<rparr>" "[sparkConfig]"]
  note U = fresh_layer_opacity [of oneBox "''fx''" sparkConfig undefined undefined
      "Some ''a''" "0" "hd (objects oneBox)" "noUpdates\<lparr>layer := Some ''fx''\<rparr>" "[]"]
  from T a l b c d
  have p1: "layers (snd (addObject sparkConfig initial)) ''fx'' = Some \<lparr>lvisible = True, lopacity = 0.5\<rparr>"
    and p2: "\<exists>ob. heap (snd (addObject sparkConfig initial)) (nextRef initial) = Some ob \<and> kind ob = Mesh
            \<and> obj_material ob = Some (\<lparr>mat_kind = ''phong'', transparent = False, opacity = 1, mat_disposed = False\<rparr>\<lparr>transparent := True, opacity := 1 * 0.5\<rparr>)"
    and p4: "layers (snd (addObjectsToLayer ''fx'' [sparkConfig] initial)) ''fx''
       = Some \<lparr>lvisible = True, lopacity = 1\<rparr>"
    by simp_all
  from U e l
  have p3: "layers (snd (updateObject (Some ''a'') (noUpdates\<lparr>layer := Some ''fx''\<rparr>) oneBox)) ''fx''
       = Some \<lparr>lvisible = True, lopacity = 0.5\<rparr>"
    by simp
  from p2 e(4) have p2': "map_option obj_material (heap (snd (addObject sparkConfig initial)) 0)
       = Some (Some \<lparr>mat_kind = ''phong'', transparent = True, opacity = 0.5, mat_disposed = False\<rparr>)"
    by auto
  from a e(3) p1 p2' p3 p4 show ?thesis by simp
qed

text \<open>
  Claim C10 says that \<^verbatim>\<open>addObject\<close>, given a layer that does not exist, makes the
  layer with opacity 0.5 and the mesh transparent with its opacity halved. The code
  does otherwise when the name of the layer is one that every plain object inherits.
  No layer \<open>constructor\<close> exists in a new instance. The test
  \<^verbatim>\<open>!this.layers[config.layer]\<close> finds the inherited \<^verbatim>\<open>constructor\<close>, so adding a box
  to that layer makes no layer, leaves the material opaque with opacity 1, and sets
  \<^verbatim>\<open>visible\<close> of the mesh to \<^verbatim>\<open>undefined\<close>.
\<close>

theorem inherited_layer_name_not_created:
  "layer oddConfig = Some ''constructor''
   \<and> layers initial ''constructor'' = None
   \<and> fst (addObject oddConfig initial) = Some (Some ''odd'')
   \<and> layers (snd (addObject oddConfig initial)) ''constructor'' = None
   \<and> map_option obj_material (heap (snd (addObject oddConfig initial)) 0)
       = Some (Some \<lparr>mat_kind = ''phong'', transparent = False, opacity = 1, mat_disposed = False\<rparr>)
   \<and> map_option visible (heap (snd (addObject oddConfig initial)) 0) = Some None"
  by (simp add: oddConfig_def build_defs Let_def)

end
